theory Spec2Isabelle
  imports Complex_Main "HOL-Library.Word" "HOL-Library.Multiset"
begin

unbundle bit_operations_syntax

section \<open>Shared protocol types (shared/include/Protocol.hpp)\<close>

type_synonym u8 = "8 word"
type_synonym u16 = "16 word"
type_synonym u32 = "32 word"
type_synonym u64 = "64 word"

text \<open>
  \<^verbatim>\<open>enum class MessageType : uint8_t\<close>. A header read from the wire can carry any byte
  in its type field, so the type is modelled as the byte itself and the enumerators as
  named constants.
\<close>

definition CLIENT_HELLO :: u8 where "CLIENT_HELLO = 0x01"
definition SERVER_HELLO :: u8 where "SERVER_HELLO = 0x02"
definition DRAW_POINT :: u8 where "DRAW_POINT = 0x10"
definition DRAW_LINE :: u8 where "DRAW_LINE = 0x11"
definition DRAW_RECTANGLE :: u8 where "DRAW_RECTANGLE = 0x12"
definition FILL_RECTANGLE :: u8 where "FILL_RECTANGLE = 0x13"
definition DRAW_ARC :: u8 where "DRAW_ARC = 0x14"
definition FILL_ARC :: u8 where "FILL_ARC = 0x15"
definition DRAW_POLYGON :: u8 where "DRAW_POLYGON = 0x16"
definition FILL_POLYGON :: u8 where "FILL_POLYGON = 0x17"
definition DRAW_TEXT :: u8 where "DRAW_TEXT = 0x18"
definition DRAW_IMAGE_STRING :: u8 where "DRAW_IMAGE_STRING = 0x19"
definition DRAW_TEXTURED_QUADS :: u8 where "DRAW_TEXTURED_QUADS = 0x1A"
definition CREATE_GC :: u8 where "CREATE_GC = 0x20"
definition FREE_GC :: u8 where "FREE_GC = 0x21"
definition SET_FOREGROUND :: u8 where "SET_FOREGROUND = 0x22"
definition SET_BACKGROUND :: u8 where "SET_BACKGROUND = 0x23"
definition SET_LINE_ATTRIBUTES :: u8 where "SET_LINE_ATTRIBUTES = 0x24"
definition SET_FILL_STYLE :: u8 where "SET_FILL_STYLE = 0x25"
definition SET_FONT_SIZE :: u8 where "SET_FONT_SIZE = 0x26"
definition SET_FUNCTION :: u8 where "SET_FUNCTION = 0x27"
definition UPLOAD_FONT_TEXTURE :: u8 where "UPLOAD_FONT_TEXTURE = 0x30"
definition CREATE_PIXMAP :: u8 where "CREATE_PIXMAP = 0x31"
definition FREE_PIXMAP :: u8 where "FREE_PIXMAP = 0x32"
definition CLEAR_LAYER :: u8 where "CLEAR_LAYER = 0x40"
definition CLEAR_ALL_LAYERS :: u8 where "CLEAR_ALL_LAYERS = 0x41"
definition SET_LAYER_VISIBILITY :: u8 where "SET_LAYER_VISIBILITY = 0x42"
definition BATCH_BEGIN :: u8 where "BATCH_BEGIN = 0x43"
definition BATCH_END :: u8 where "BATCH_END = 0x44"
definition INPUT_EVENT :: u8 where "INPUT_EVENT = 0x50"
definition FRAME_CALLBACK :: u8 where "FRAME_CALLBACK = 0x51"
definition PING :: u8 where "PING = 0xF0"
definition PONG :: u8 where "PONG = 0xF1"
definition ERROR_RESPONSE :: u8 where "ERROR_RESPONSE = 0xFE"
definition DISCONNECT :: u8 where "DISCONNECT = 0xFF"

text \<open>The enumerators of \<^verbatim>\<open>MessageType\<close>: the known tags of the protocol.\<close>

definition known_tags :: "u8 list" where
  "known_tags =
     [CLIENT_HELLO, SERVER_HELLO,
      DRAW_POINT, DRAW_LINE, DRAW_RECTANGLE, FILL_RECTANGLE, DRAW_ARC, FILL_ARC,
      DRAW_POLYGON, FILL_POLYGON, DRAW_TEXT, DRAW_IMAGE_STRING, DRAW_TEXTURED_QUADS,
      CREATE_GC, FREE_GC, SET_FOREGROUND, SET_BACKGROUND, SET_LINE_ATTRIBUTES,
      SET_FILL_STYLE, SET_FONT_SIZE, SET_FUNCTION,
      UPLOAD_FONT_TEXTURE, CREATE_PIXMAP, FREE_PIXMAP,
      CLEAR_LAYER, CLEAR_ALL_LAYERS, SET_LAYER_VISIBILITY, BATCH_BEGIN, BATCH_END,
      INPUT_EVENT, FRAME_CALLBACK,
      PING, PONG, ERROR_RESPONSE, DISCONNECT]"

definition is_known_tag :: "u8 \<Rightarrow> bool" where
  "is_known_tag t = (t \<in> set known_tags)"

text \<open>\<^verbatim>\<open>constexpr uint32_t PROTOCOL_VERSION = 1\<close> (shared/include/Constants.hpp)\<close>

definition PROTOCOL_VERSION :: u32 where "PROTOCOL_VERSION = 1"

text \<open>
  \<^verbatim>\<open>struct MessageHeader\<close>, packed, 32 bytes: the fields in their declared order.
\<close>

record MessageHeader =
  magic :: u32
  protocol_version :: u32
  type :: u8
  layer_id :: u8
  reserved :: u16
  client_id :: u32
  sequence :: u32
  data_size :: u32
  timestamp :: u64

section \<open>Bytes in memory and on the wire\<close>

text \<open>
  \<open>le_bytes n w\<close> are the \<open>n\<close> low bytes of \<open>w\<close>, least significant first, and
  \<open>from_le\<close> reads such a sequence back.
\<close>

fun le_bytes :: "nat \<Rightarrow> 'a::len word \<Rightarrow> u8 list" where
  "le_bytes 0 w = []"
| "le_bytes (Suc n) w = ucast w # le_bytes n (drop_bit 8 w)"

fun from_le :: "u8 list \<Rightarrow> 'a::len word" where
  "from_le [] = 0"
| "from_le (b # bs) = ucast b OR push_bit 8 (from_le bs)"

text \<open>
  The source copies structs with \<^verbatim>\<open>memcpy\<close> and converts fields with \<^verbatim>\<open>htonl\<close>,
  \<^verbatim>\<open>htons\<close> and \<^verbatim>\<open>htobe64\<close>; both depend on the byte order of the host, which is a
  parameter of the model. \<open>store\<close> is the object representation of an \<open>n\<close>-byte
  integer in memory, \<open>load\<close> reads one back, and \<open>bswap\<close> reverses the bytes of a
  value.
\<close>

datatype byte_order = LittleEndian | BigEndian

definition store :: "byte_order \<Rightarrow> nat \<Rightarrow> 'a::len word \<Rightarrow> u8 list" where
  "store e n w = (case e of LittleEndian \<Rightarrow> le_bytes n w | BigEndian \<Rightarrow> rev (le_bytes n w))"

definition load :: "byte_order \<Rightarrow> u8 list \<Rightarrow> 'a::len word" where
  "load e bs = (case e of LittleEndian \<Rightarrow> from_le bs | BigEndian \<Rightarrow> from_le (rev bs))"

definition bswap :: "nat \<Rightarrow> 'a::len word \<Rightarrow> 'a word" where
  "bswap n w = from_le (rev (le_bytes n w))"

definition htonl :: "byte_order \<Rightarrow> u32 \<Rightarrow> u32" where
  "htonl e w = (case e of LittleEndian \<Rightarrow> bswap 4 w | BigEndian \<Rightarrow> w)"

definition htons :: "byte_order \<Rightarrow> u16 \<Rightarrow> u16" where
  "htons e w = (case e of LittleEndian \<Rightarrow> bswap 2 w | BigEndian \<Rightarrow> w)"

definition htobe64 :: "byte_order \<Rightarrow> u64 \<Rightarrow> u64" where
  "htobe64 e w = (case e of LittleEndian \<Rightarrow> bswap 8 w | BigEndian \<Rightarrow> w)"

definition ntohl :: "byte_order \<Rightarrow> u32 \<Rightarrow> u32" where
  "ntohl e w = (case e of LittleEndian \<Rightarrow> bswap 4 w | BigEndian \<Rightarrow> w)"

definition ntohs :: "byte_order \<Rightarrow> u16 \<Rightarrow> u16" where
  "ntohs e w = (case e of LittleEndian \<Rightarrow> bswap 2 w | BigEndian \<Rightarrow> w)"

definition be64toh :: "byte_order \<Rightarrow> u64 \<Rightarrow> u64" where
  "be64toh e w = (case e of LittleEndian \<Rightarrow> bswap 8 w | BigEndian \<Rightarrow> w)"

text \<open>
  \<^verbatim>\<open>memcpy(dst, &header, sizeof(MessageHeader))\<close> and its inverse: the 32 bytes of the
  packed struct, field after field.
\<close>

definition header_to_bytes :: "byte_order \<Rightarrow> MessageHeader \<Rightarrow> u8 list" where
  "header_to_bytes e h =
     store e 4 (magic h) @ store e 4 (protocol_version h) @ [type h] @ [layer_id h] @
     store e 2 (reserved h) @ store e 4 (client_id h) @ store e 4 (sequence h) @
     store e 4 (data_size h) @ store e 8 (timestamp h)"

definition bytes_at :: "nat \<Rightarrow> nat \<Rightarrow> 'a list \<Rightarrow> 'a list" where
  "bytes_at off n bs = take n (drop off bs)"

definition header_from_bytes :: "byte_order \<Rightarrow> u8 list \<Rightarrow> MessageHeader" where
  "header_from_bytes e bs =
     \<lparr>magic = load e (bytes_at 0 4 bs), protocol_version = load e (bytes_at 4 4 bs),
      type = from_le (bytes_at 8 1 bs), layer_id = from_le (bytes_at 9 1 bs),
      reserved = load e (bytes_at 10 2 bs), client_id = load e (bytes_at 12 4 bs),
      sequence = load e (bytes_at 16 4 bs), data_size = load e (bytes_at 20 4 bs),
      timestamp = load e (bytes_at 24 8 bs)\<rparr>"

text \<open>
  The wire format of section 6 of the protocol: an \<open>n\<close>-byte integer most significant
  byte first, and the 32 header bytes in the order of the layout table. It is what
  \<open>header_to_bytes\<close> gives after \<open>hostToNetwork\<close> on either kind of host (lemma
  \<open>header_to_bytes_hostToNetwork\<close> below).
\<close>

definition be_bytes :: "nat \<Rightarrow> 'a::len word \<Rightarrow> u8 list" where
  "be_bytes n w = rev (le_bytes n w)"

definition wire_header :: "MessageHeader \<Rightarrow> u8 list" where
  "wire_header h =
     be_bytes 4 (magic h) @ be_bytes 4 (protocol_version h) @ [type h] @ [layer_id h] @
     be_bytes 2 (reserved h) @ be_bytes 4 (client_id h) @ be_bytes 4 (sequence h) @
     be_bytes 4 (data_size h) @ be_bytes 8 (timestamp h)"

section \<open>ProtocolHelper (shared/src/Protocol.cpp)\<close>

text \<open>
  \<^verbatim>\<open>ProtocolHelper::validateHeader\<close>: the four checks in the order of the source. The
  third compares the type byte with \<^verbatim>\<open>MessageType::DISCONNECT\<close> as \<^verbatim>\<open>uint8_t\<close> values.
\<close>

definition validateHeader :: "MessageHeader \<Rightarrow> bool" where
  "validateHeader header =
     (if magic header \<noteq> 0x4B41524F then False
      else if protocol_version header \<noteq> PROTOCOL_VERSION then False
      else if type header > DISCONNECT then False
      else if data_size header > 10 * 1024 * 1024 then False
      else True)"

text \<open>\<^verbatim>\<open>ProtocolHelper::hostToNetwork\<close> and \<^verbatim>\<open>networkToHost\<close> (the POSIX branch).\<close>

definition hostToNetwork :: "byte_order \<Rightarrow> MessageHeader \<Rightarrow> MessageHeader" where
  "hostToNetwork e header =
     header\<lparr>magic := htonl e (magic header),
            protocol_version := htonl e (protocol_version header),
            reserved := htons e (reserved header),
            client_id := htonl e (client_id header),
            sequence := htonl e (sequence header),
            data_size := htonl e (data_size header),
            timestamp := htobe64 e (timestamp header)\<rparr>"

definition networkToHost :: "byte_order \<Rightarrow> MessageHeader \<Rightarrow> MessageHeader" where
  "networkToHost e header =
     header\<lparr>magic := ntohl e (magic header),
            protocol_version := ntohl e (protocol_version header),
            reserved := ntohs e (reserved header),
            client_id := ntohl e (client_id header),
            sequence := ntohl e (sequence header),
            data_size := ntohl e (data_size header),
            timestamp := be64toh e (timestamp header)\<rparr>"

text \<open>
  \<^verbatim>\<open>ProtocolHelper::createMessage(header, data)\<close>. The vector is resized to
  \<^verbatim>\<open>sizeof(MessageHeader) + data_size\<close> zero bytes, the converted header is copied in,
  and \<^verbatim>\<open>data_size\<close> bytes are copied from \<open>data\<close> when the pointer is not null
  (\<open>None\<close> is the null pointer). Copying from a buffer shorter than \<^verbatim>\<open>data_size\<close>
  reads past its end, which is undefined in the source: the model returns \<open>None\<close>.
\<close>

definition createMessage ::
  "byte_order \<Rightarrow> MessageHeader \<Rightarrow> u8 list option \<Rightarrow> u8 list option" where
  "createMessage e header data =
     (let n = unat (data_size header);
          network_header = hostToNetwork e header
      in case data of
           None \<Rightarrow> Some (header_to_bytes e network_header @ replicate n 0)
         | Some d \<Rightarrow>
             if data_size header > 0
             then (if length d < n then None
                   else Some (header_to_bytes e network_header @ take n d))
             else Some (header_to_bytes e network_header @ replicate n 0))"


section \<open>Render command priority (Graphics/RenderCommand.hpp, Core/CommandProcessor.cpp)\<close>

text \<open>\<^verbatim>\<open>enum class Priority : uint8_t { LOW = 0, NORMAL = 1, HIGH = 2, CRITICAL = 3 }\<close>\<close>

datatype Priority = LOW | NORMAL | HIGH | CRITICAL

fun priority_rank :: "Priority \<Rightarrow> nat" where
  "priority_rank LOW = 0"
| "priority_rank NORMAL = 1"
| "priority_rank HIGH = 2"
| "priority_rank CRITICAL = 3"

text \<open>
  \<^verbatim>\<open>CommandConverter::assignPriority(MessageType message_type, uint8_t layer_id)\<close>
  (the parameter \<^verbatim>\<open>layer_id\<close> is \<open>layer\<close> here): the layer test comes first, then the switch on the message type with its three
  branches in the order of the source.
\<close>

definition assignPriority :: "u8 \<Rightarrow> u8 \<Rightarrow> Priority" where
  "assignPriority message_type layer =
     (if layer = 0 then HIGH
      else if message_type = CLEAR_LAYER \<or> message_type = CLEAR_ALL_LAYERS then HIGH
      else if message_type = DRAW_TEXT \<or> message_type = DRAW_TEXTURED_QUADS then NORMAL
      else NORMAL)"

section \<open>Client session (Network/Client.hpp, Network/Client.cpp)\<close>

text \<open>\<^verbatim>\<open>enum class Client::State\<close>\<close>

datatype State = CONNECTING | HANDSHAKE | CONNECTED | DISCONNECTING | DISCONNECTED | ERROR

text \<open>\<^verbatim>\<open>struct Client::Config\<close> with its default member initialisers.\<close>

record Config =
  receive_buffer_size :: nat
  send_buffer_size :: nat
  timeout_seconds :: u32
  ping_interval_seconds :: u32
  max_message_size :: u32
  enable_keep_alive :: bool
  enable_nagle :: bool

definition default_Config :: Config where
  "default_Config =
     \<lparr>receive_buffer_size = 64 * 1024, send_buffer_size = 64 * 1024,
      timeout_seconds = 30, ping_interval_seconds = 10,
      max_message_size = 10 * 1024 * 1024,
      enable_keep_alive = True, enable_nagle = False\<rparr>"

text \<open>
  The members of a \<^verbatim>\<open>Client\<close> object that \<^verbatim>\<open>disconnect\<close>, \<^verbatim>\<open>checkRateLimit\<close> and
  \<^verbatim>\<open>parseMessages\<close> read or write (\<open>info_errors\<close> is \<^verbatim>\<open>m_info.errors\<close>). Effects
  outside the object are kept as traces: \<open>closed_fds\<close> lists the descriptors handed
  to \<^verbatim>\<open>close()\<close>, \<open>log_lines\<close> the reasons logged by \<^verbatim>\<open>Logger::info\<close> in
  \<^verbatim>\<open>disconnect\<close>. Time points of the steady clock are integers (nanosecond ticks);
  sizes and positions (\<^verbatim>\<open>size_t\<close>) are natural numbers.
\<close>

record Client =
  m_socket :: int
  m_config :: Config
  info_errors :: u32
  m_state :: State
  m_receive_buffer :: "u8 list"
  m_receive_buffer_pos :: nat
  m_parsed_messages :: "(MessageHeader \<times> u8 list) list"
  m_message_times :: "int list"
  m_disconnect_reason :: string
  closed_fds :: "int list"
  log_lines :: "string list"

text \<open>
  \<^verbatim>\<open>Client::Client(socket, type)\<close>: the state of a new client, from the constructor
  and the default member initialisers.
\<close>

definition Client_new :: "int \<Rightarrow> Client" where
  "Client_new socket =
     \<lparr>m_socket = socket, m_config = default_Config, info_errors = 0,
      m_state = CONNECTING, m_receive_buffer = [], m_receive_buffer_pos = 0,
      m_parsed_messages = [], m_message_times = [], m_disconnect_reason = [],
      closed_fds = [], log_lines = []\<rparr>"

definition setState :: "State \<Rightarrow> Client \<Rightarrow> Client" where
  "setState new_state c = c\<lparr>m_state := new_state\<rparr>"

text \<open>
  \<^verbatim>\<open>Client::disconnect(reason)\<close>: the early return on \<^verbatim>\<open>DISCONNECTED\<close>, then the log
  line, the stored reason, \<^verbatim>\<open>DISCONNECTING\<close>, the close of an open socket and
  \<^verbatim>\<open>DISCONNECTED\<close>.
\<close>

definition disconnect :: "string \<Rightarrow> Client \<Rightarrow> Client" where
  "disconnect reason c =
     (if m_state c = DISCONNECTED then c
      else
        let c1 = c\<lparr>log_lines := log_lines c @ [reason]\<rparr>;
            c2 = c1\<lparr>m_disconnect_reason := reason\<rparr>;
            c3 = setState DISCONNECTING c2;
            c4 = (if m_socket c3 \<noteq> -1
                  then c3\<lparr>closed_fds := closed_fds c3 @ [m_socket c3], m_socket := -1\<rparr>
                  else c3)
        in setState DISCONNECTED c4)"

text \<open>\<^verbatim>\<open>Client::validateMessageSize\<close> and \<^verbatim>\<open>Client::validateMessageHeader\<close>\<close>

definition validateMessageSize :: "Client \<Rightarrow> nat \<Rightarrow> bool" where
  "validateMessageSize c sz = (sz \<le> unat (max_message_size (m_config c)))"

definition validateMessageHeader :: "Client \<Rightarrow> MessageHeader \<Rightarrow> bool" where
  "validateMessageHeader c header =
     (validateHeader header \<and> validateMessageSize c (unat (data_size header)))"

text \<open>\<^verbatim>\<open>Client::compactReceiveBuffer\<close>\<close>

definition compactReceiveBuffer :: "Client \<Rightarrow> Client" where
  "compactReceiveBuffer c =
     (if m_receive_buffer_pos c > 0
      then c\<lparr>m_receive_buffer := drop (m_receive_buffer_pos c) (m_receive_buffer c),
             m_receive_buffer_pos := 0\<rparr>
      else c)"

text \<open>
  The \<^verbatim>\<open>while\<close> loop of \<^verbatim>\<open>Client::parseMessages\<close>. The result is \<open>(False, c)\<close> when
  the loop leaves the function with \<^verbatim>\<open>return false\<close> (invalid header, state set to
  \<^verbatim>\<open>ERROR\<close>) and \<open>(True, c)\<close> when it ends normally or by \<^verbatim>\<open>break\<close>. The
  position never exceeds the size of the buffer (it starts at 0 and advances only
  over a complete message), so \<^verbatim>\<open>size() - m_receive_buffer_pos\<close> does not wrap.
\<close>

function parseMessages_loop :: "byte_order \<Rightarrow> Client \<Rightarrow> bool \<times> Client" where
  "parseMessages_loop e c =
     (if length (m_receive_buffer c) - m_receive_buffer_pos c \<ge> 32
      then
        let header = networkToHost e
              (header_from_bytes e (bytes_at (m_receive_buffer_pos c) 32 (m_receive_buffer c)))
        in if \<not> validateMessageHeader c header then (False, setState ERROR c)
           else
             let message_size = 32 + unat (data_size header)
             in if length (m_receive_buffer c) - m_receive_buffer_pos c < message_size
                then (True, c)
                else
                  let data = (if data_size header > 0
                              then bytes_at (m_receive_buffer_pos c + 32)
                                     (unat (data_size header)) (m_receive_buffer c)
                              else [])
                  in parseMessages_loop e
                       (c\<lparr>m_parsed_messages := m_parsed_messages c @ [(header, data)],
                          m_receive_buffer_pos := m_receive_buffer_pos c + message_size\<rparr>)
      else (True, c))"
  by pat_completeness auto
termination
  by (relation "measure (\<lambda>(e, c). length (m_receive_buffer c) - m_receive_buffer_pos c)")
     auto

declare parseMessages_loop.simps [simp del]

text \<open>\<^verbatim>\<open>Client::parseMessages\<close>: the loop, then the compaction of the buffer.\<close>

definition parseMessages :: "byte_order \<Rightarrow> Client \<Rightarrow> bool \<times> Client" where
  "parseMessages e c =
     (case parseMessages_loop e c of
        (False, c') \<Rightarrow> (False, c')
      | (True, c') \<Rightarrow>
          (True, if m_receive_buffer_pos c' > length (m_receive_buffer c') div 2
                 then compactReceiveBuffer c' else c'))"


definition one_second :: int where "one_second = 1000000000"




section \<open>Batch renderer (Graphics/BatchRenderer.hpp, Graphics/BatchRenderer.cpp)\<close>

text \<open>
  \<^verbatim>\<open>struct Color\<close> and \<^verbatim>\<open>struct TexturedVertex\<close> (shared/include/Types.hpp). The
  \<^verbatim>\<open>float\<close> fields of a vertex are only copied by the code modelled here, so they are
  carried as their 32-bit patterns.
\<close>

record Color =
  red :: u8
  green :: u8
  blue :: u8
  alpha :: u8
  rgba :: u32

record TexturedVertex =
  vx :: u32
  vy :: u32
  vu :: u32
  vv :: u32
  vcolor :: u32

text \<open>
  \<^verbatim>\<open>struct BatchRenderer::RenderBatch\<close>. The counters are \<^verbatim>\<open>size_t\<close>; they count
  elements held in memory and are modelled as natural numbers.
\<close>

record RenderBatch =
  texture_id :: u32
  batch_layer_id :: u8
  blend_mode :: int
  tint :: Color
  vertices :: "TexturedVertex list"
  indices :: "u16 list"
  vertex_count :: nat
  index_count :: nat

text \<open>
  \<^verbatim>\<open>struct BatchRenderer::BatchKey\<close>, as a tuple, and the key under which
  \<^verbatim>\<open>findOrCreateBatch\<close> configures a batch (texture id, layer id, blend mode and the
  tint's \<^verbatim>\<open>rgba\<close>).
\<close>

type_synonym BatchKey = "u32 \<times> u8 \<times> int \<times> u32"

definition batch_key :: "RenderBatch \<Rightarrow> BatchKey" where
  "batch_key b = (texture_id b, batch_layer_id b, blend_mode b, rgba (tint b))"

text \<open>\<^verbatim>\<open>RenderBatch::clear\<close>\<close>

definition batch_clear :: "RenderBatch \<Rightarrow> RenderBatch" where
  "batch_clear b = b\<lparr>vertices := [], indices := [], vertex_count := 0, index_count := 0\<rparr>"

text \<open>
  \<^verbatim>\<open>Color(uint32_t rgba_)\<close>, and the batch that \<^verbatim>\<open>findOrCreateBatch\<close> configures for a
  key: the four key fields are stored and the batch is cleared.
\<close>

definition Color_of_rgba :: "u32 \<Rightarrow> Color" where
  "Color_of_rgba w =
     \<lparr>red = ucast (drop_bit 24 w AND 0xFF), green = ucast (drop_bit 16 w AND 0xFF),
      blue = ucast (drop_bit 8 w AND 0xFF), alpha = ucast (w AND 0xFF), rgba = w\<rparr>"

definition new_batch :: "BatchKey \<Rightarrow> RenderBatch" where
  "new_batch key =
     (case key of (tex, layer, blend, tint_rgba) \<Rightarrow>
        \<lparr>texture_id = tex, batch_layer_id = layer, blend_mode = blend,
         tint = Color_of_rgba tint_rgba, vertices = [], indices = [],
         vertex_count = 0, index_count = 0\<rparr>)"

text \<open>\<^verbatim>\<open>BatchRenderer::addQuadToBatch\<close>\<close>

definition addQuadToBatch :: "RenderBatch \<Rightarrow> TexturedVertex list \<Rightarrow> RenderBatch" where
  "addQuadToBatch batch quad_vertices =
     (if length quad_vertices \<noteq> 4 then batch
      else
        let vertex_offset = length (vertices batch)
        in batch\<lparr>vertices := vertices batch @ quad_vertices,
                 indices := indices batch @
                   map (\<lambda>k. word_of_nat (vertex_offset + k)) [0, 1, 2, 0, 2, 3],
                 vertex_count := vertex_count batch + 4,
                 index_count := index_count batch + 6\<rparr>)"

text \<open>
  The members of \<^verbatim>\<open>BatchRenderer\<close> used by \<^verbatim>\<open>optimizeBatches\<close>. \<^verbatim>\<open>m_render_order\<close>
  is a vector of pointers; every pointer is pushed once, by \<^verbatim>\<open>findOrCreateBatch\<close> when
  it creates the batch, so the entries are distinct objects and the vector is
  modelled as the list of the batches pointed to. \<open>stats_batches_merged\<close> is
  \<^verbatim>\<open>m_stats.batches_merged\<close>.
\<close>

record BatchRenderer =
  m_max_vertices_per_batch :: nat
  m_batch_merging_enabled :: bool
  m_render_order :: "RenderBatch list"
  stats_batches_merged :: nat

text \<open>\<^verbatim>\<open>BatchRenderer::canMergeBatches\<close>\<close>

definition canMergeBatches :: "nat \<Rightarrow> RenderBatch \<Rightarrow> RenderBatch \<Rightarrow> bool" where
  "canMergeBatches max_vertices batch1 batch2 =
     (texture_id batch1 = texture_id batch2 \<and>
      batch_layer_id batch1 = batch_layer_id batch2 \<and>
      blend_mode batch1 = blend_mode batch2 \<and>
      rgba (tint batch1) = rgba (tint batch2) \<and>
      vertex_count batch1 + vertex_count batch2 \<le> max_vertices)"

text \<open>
  The body of the merge in \<^verbatim>\<open>optimizeBatches\<close>: the target after the vertices of the
  source are appended, its indices are appended shifted by the old vertex count (cast
  to \<^verbatim>\<open>uint16_t\<close>), and the two counters are added.
\<close>

definition merge_into :: "RenderBatch \<Rightarrow> RenderBatch \<Rightarrow> RenderBatch" where
  "merge_into target source =
     (let vertex_offset = length (vertices target)
      in target\<lparr>vertices := vertices target @ vertices source,
                indices := indices target @
                  map (\<lambda>index. word_of_nat (vertex_offset + unat index)) (indices source),
                vertex_count := vertex_count target + vertex_count source,
                index_count := index_count target + index_count source\<rparr>)"

text \<open>\<^verbatim>\<open>m_render_order.erase(m_render_order.begin() + j)\<close>\<close>

definition erase_at :: "nat \<Rightarrow> 'a list \<Rightarrow> 'a list" where
  "erase_at j xs = take j xs @ drop (Suc j) xs"

text \<open>
  The inner loop of \<^verbatim>\<open>optimizeBatches\<close> over \<open>j\<close>, on the render order and the merge
  counter. After a merge the source is cleared and erased from the render order and
  \<open>j\<close> is decremented before the loop increments it, so the same index is examined
  again.
\<close>

function optimizeBatches_inner ::
  "nat \<Rightarrow> nat \<Rightarrow> nat \<Rightarrow> RenderBatch list \<times> nat \<Rightarrow> RenderBatch list \<times> nat" where
  "optimizeBatches_inner max_vertices i j (order, merged) =
     (if j < length order
      then (if canMergeBatches max_vertices (order ! i) (order ! j)
            then optimizeBatches_inner max_vertices i j
                   (erase_at j (order[i := merge_into (order ! i) (order ! j)]), merged + 1)
            else optimizeBatches_inner max_vertices i (j + 1) (order, merged))
      else (order, merged))"
  by pat_completeness auto
termination
  by (relation "measure (\<lambda>(max_vertices, i, j, order, merged). length order - j)")
     (auto simp: erase_at_def)

declare optimizeBatches_inner.simps [simp del]

lemma length_optimizeBatches_inner:
  "length (fst (optimizeBatches_inner max_vertices i j st)) \<le> length (fst st)"
proof (induction max_vertices i j st rule: optimizeBatches_inner.induct)
  case (1 max_vertices i j order merged)
  show ?case
  proof (cases "j < length order")
    case False
    then show ?thesis by (subst optimizeBatches_inner.simps) simp
  next
    case True
    show ?thesis
    proof (cases "canMergeBatches max_vertices (order ! i) (order ! j)")
      case c: True
      have "length (erase_at j (order[i := merge_into (order ! i) (order ! j)])) \<le> length order"
        by (simp add: erase_at_def)
      with 1(1) [OF True c] True c show ?thesis
        by (subst optimizeBatches_inner.simps) simp
    next
      case c: False
      with 1(2) [OF True c] True show ?thesis
        by (subst optimizeBatches_inner.simps) simp
    qed
  qed
qed

text \<open>
  The outer loop over \<open>i\<close>, with the bound \<^verbatim>\<open>m_render_order.size() - 1\<close> read again at
  every iteration. The vector is never empty here, so the subtraction does not wrap.
\<close>

function optimizeBatches_outer ::
  "nat \<Rightarrow> nat \<Rightarrow> RenderBatch list \<times> nat \<Rightarrow> RenderBatch list \<times> nat" where
  "optimizeBatches_outer max_vertices i st =
     (if i < length (fst st) - 1
      then optimizeBatches_outer max_vertices (i + 1)
             (optimizeBatches_inner max_vertices i (i + 1) st)
      else st)"
  by pat_completeness auto
termination
proof (relation "measure (\<lambda>(max_vertices, i, st). length (fst st) - i)")
  show "wf (measure (\<lambda>(max_vertices, i, st). length (fst st) - i))" by simp
next
  fix max_vertices i :: nat and st :: "RenderBatch list \<times> nat"
  assume "i < length (fst st) - 1"
  moreover have "length (fst (optimizeBatches_inner max_vertices i (i + 1) st)) \<le> length (fst st)"
    by (rule length_optimizeBatches_inner)
  ultimately show "((max_vertices, i + 1, optimizeBatches_inner max_vertices i (i + 1) st),
                    (max_vertices, i, st))
                   \<in> measure (\<lambda>(max_vertices, i, st). length (fst st) - i)"
    by simp
qed

declare optimizeBatches_outer.simps [simp del]

text \<open>
  \<^verbatim>\<open>BatchRenderer::optimizeBatches\<close>. In BatchRenderer.cpp the text of the function
  is in two pieces: it breaks off after the update of \<^verbatim>\<open>target.vertex_count\<close> and
  resumes, with the update of \<^verbatim>\<open>target.index_count\<close>, behind the end of the file's
  namespace; the loops above follow the two pieces joined.
\<close>

definition optimizeBatches :: "BatchRenderer \<Rightarrow> BatchRenderer" where
  "optimizeBatches br =
     (if \<not> m_batch_merging_enabled br \<or> length (m_render_order br) < 2 then br
      else
        case optimizeBatches_outer (m_max_vertices_per_batch br) 0
               (m_render_order br, stats_batches_merged br) of
          (order, merged) \<Rightarrow> br\<lparr>m_render_order := order, stats_batches_merged := merged\<rparr>)"

section \<open>Layer registry (Core/LayerManager.cpp)\<close>

text \<open>
  Modelled from the spec: \<^verbatim>\<open>struct LayerManager::Layer\<close>, \<^verbatim>\<open>enum class BlendMode\<close>
  and the member declarations of \<^verbatim>\<open>LayerManager\<close>. Their header is not among the
  sources; the fields are those that LayerManager.cpp reads and writes and that
  section 3 of the specification lists for a layer (id, visibility, opacity, blend
  mode, z-order, optional raster cache, dirty flag, object and vertex counters,
  creation and last-modified time). Fields that \<^verbatim>\<open>createLayer\<close> does not assign start
  at zero. \<open>l_id\<close> is the member \<^verbatim>\<open>id\<close>, and \<open>render_texture_id\<close> is
  \<^verbatim>\<open>render_texture.id\<close>, 0 when the layer has no raster cache.
\<close>

text \<open>
  The values of the \<^verbatim>\<open>float\<close> members \<^verbatim>\<open>z_order\<close> and \<^verbatim>\<open>opacity\<close>: a finite value, as
  the real number it denotes, or one of the two infinities, with the order of
  \<^verbatim>\<open>operator<\<close>. A NaN is left out because no layer ever holds one: \<^verbatim>\<open>createLayer\<close> stores
  the layer id and 1.0f, and the two setters store their argument only when
  \<^verbatim>\<open>std::abs(old - argument) > 0.001f\<close> holds, which is false when the argument (or the
  difference) is a NaN; a call of a setter with a NaN therefore changes no layer.
\<close>

datatype fval = NegInf | Fin real | PosInf

instantiation fval :: linorder
begin

fun less_eq_fval :: "fval \<Rightarrow> fval \<Rightarrow> bool" where
  "less_eq_fval NegInf b = True"
| "less_eq_fval (Fin x) NegInf = False"
| "less_eq_fval (Fin x) (Fin y) = (x \<le> y)"
| "less_eq_fval (Fin x) PosInf = True"
| "less_eq_fval PosInf NegInf = False"
| "less_eq_fval PosInf (Fin y) = False"
| "less_eq_fval PosInf PosInf = True"

definition less_fval :: "fval \<Rightarrow> fval \<Rightarrow> bool" where
  "less_fval a b = (a \<le> b \<and> \<not> b \<le> a)"

instance
proof
  fix x y z :: fval
  show "(x < y) = (x \<le> y \<and> \<not> y \<le> x)" by (simp add: less_fval_def)
  show "x \<le> x" by (cases x) simp_all
  show "x \<le> y \<Longrightarrow> y \<le> z \<Longrightarrow> x \<le> z" by (cases x; cases y; cases z) simp_all
  show "x \<le> y \<Longrightarrow> y \<le> x \<Longrightarrow> x = y" by (cases x; cases y) simp_all
  show "x \<le> y \<or> y \<le> x" by (cases x; cases y) auto
qed

end

text \<open>
  The one computation on these values is the test \<^verbatim>\<open>std::abs(a - b) > 0.001f\<close> of the
  two setters, carried out in \<^verbatim>\<open>float\<close> arithmetic. Its outcome is a parameter of the
  model, \<open>differs a b\<close>, and nothing is assumed about it. \<open>differs_exact\<close> is the value
  of the parameter used in the examples: the test with the subtraction carried out
  exactly and \<open>threshold\<close> the value of the literal \<^verbatim>\<open>0.001f\<close> (the binary32 number
  0x3A83126F). It is the outcome of the float computation whenever the difference of
  the two values is itself a float, as it is for the small integers of the examples;
  the difference of two equal infinities is a NaN, any other difference with an
  infinity is an infinity.
\<close>

definition threshold :: real where
  "threshold = 8589935 / 2 ^ 33"

fun differs_exact :: "fval \<Rightarrow> fval \<Rightarrow> bool" where
  "differs_exact (Fin a) (Fin b) = (\<bar>a - b\<bar> > threshold)"
| "differs_exact NegInf NegInf = False"
| "differs_exact PosInf PosInf = False"
| "differs_exact NegInf b = True"
| "differs_exact PosInf b = True"
| "differs_exact (Fin a) b = True"

text \<open>\<^verbatim>\<open>std::clamp(v, lo, hi)\<close>\<close>

definition std_clamp :: "fval \<Rightarrow> fval \<Rightarrow> fval \<Rightarrow> fval" where
  "std_clamp v lo hi = (if v < lo then lo else if hi < v then hi else v)"

datatype BlendMode =
  ALPHA | ADDITIVE | MULTIPLIED | ADD_COLORS | SUBTRACT_COLORS | ALPHA_PREMULTIPLY | CUSTOM

record Layer =
  l_id :: u8
  visible :: bool
  z_order :: fval
  layer_blend_mode :: BlendMode
  opacity :: fval
  dirty :: bool
  created_time :: int
  last_modified :: int
  object_count :: u32
  layer_vertex_count :: u32
  render_texture_id :: u32
  caching_enabled :: bool

text \<open>
  Modelled from the spec: the state of a \<^verbatim>\<open>LayerManager\<close>. \<^verbatim>\<open>m_layers\<close> is the
  container from layer id to layer (used in the source through \<^verbatim>\<open>find\<close>,
  \<^verbatim>\<open>operator[]\<close>, \<^verbatim>\<open>erase\<close>, \<^verbatim>\<open>clear\<close> and iteration), a finite map here.
  \<^verbatim>\<open>m_layers_mutex\<close> is the \<^verbatim>\<open>std::mutex\<close> that the member functions take with
  \<^verbatim>\<open>std::lock_guard<std::mutex>\<close>; the field is \<open>True\<close> while it is held.
\<close>

record LayerManager =
  m_max_layers :: u32
  m_layers :: "u8 \<rightharpoonup> Layer"
  m_needs_sort :: bool
  m_layers_mutex :: bool

text \<open>
  \<^verbatim>\<open>std::lock_guard<std::mutex> lock(m_layers_mutex)\<close> around a body. Every member
  function returns \<open>None\<close> when the call does not return normally: locking a
  \<^verbatim>\<open>std::mutex\<close> that the calling thread already owns is undefined behaviour (in
  practice the thread blocks forever). The guard releases the mutex when the body
  ends.
\<close>

definition with_lock ::
  "(LayerManager \<Rightarrow> ('a \<times> LayerManager) option) \<Rightarrow> LayerManager \<Rightarrow> ('a \<times> LayerManager) option"
  where
  "with_lock body lm =
     (if m_layers_mutex lm then None
      else case body (lm\<lparr>m_layers_mutex := True\<rparr>) of
             None \<Rightarrow> None
           | Some (r, lm') \<Rightarrow> Some (r, lm'\<lparr>m_layers_mutex := False\<rparr>))"

text \<open>The layer that \<^verbatim>\<open>createLayer\<close> builds.\<close>

definition new_layer :: "int \<Rightarrow> u8 \<Rightarrow> Layer" where
  "new_layer now lid =
     \<lparr>l_id = lid, visible = True, z_order = Fin (real (unat lid)), layer_blend_mode = ALPHA,
      opacity = Fin 1, dirty = True, created_time = now, last_modified = 0,
      object_count = 0, layer_vertex_count = 0, render_texture_id = 0,
      caching_enabled = False\<rparr>"

text \<open>\<^verbatim>\<open>LayerManager::createLayer\<close>; \<open>now\<close> is the clock reading it stores.\<close>

definition createLayer :: "int \<Rightarrow> u8 \<Rightarrow> LayerManager \<Rightarrow> (bool \<times> LayerManager) option" where
  "createLayer now lid =
     with_lock (\<lambda>lm.
       if unat lid \<ge> unat (m_max_layers lm) then Some (False, lm)
       else if m_layers lm lid \<noteq> None then Some (True, lm)
       else Some (True, lm\<lparr>m_layers := (m_layers lm)(lid \<mapsto> new_layer now lid)\<rparr>))"

text \<open>
  \<^verbatim>\<open>LayerManager::LayerManager(max_layers)\<close>: the empty registry, then
  \<^verbatim>\<open>createLayer(0)\<close>, whose result the constructor ignores.
\<close>

definition LayerManager_new :: "int \<Rightarrow> u32 \<Rightarrow> LayerManager option" where
  "LayerManager_new now max_layers =
     map_option snd
       (createLayer now 0
          \<lparr>m_max_layers = max_layers, m_layers = Map.empty, m_needs_sort = False,
           m_layers_mutex = False\<rparr>)"

text \<open>\<^verbatim>\<open>LayerManager::deleteLayer\<close>: the test for layer 0 comes before the lock.\<close>

definition deleteLayer :: "u8 \<Rightarrow> LayerManager \<Rightarrow> (bool \<times> LayerManager) option" where
  "deleteLayer lid lm =
     (if lid = 0 then Some (False, lm)
      else with_lock (\<lambda>lm.
             case m_layers lm lid of
               None \<Rightarrow> Some (False, lm)
             | Some layer \<Rightarrow> Some (True, lm\<lparr>m_layers := (m_layers lm)(lid := None)\<rparr>)) lm)"

text \<open>
  \<^verbatim>\<open>LayerManager::getLayer\<close>: the pointer to the layer (\<open>None\<close> is \<^verbatim>\<open>nullptr\<close>); a
  pointer is represented by the key of its map entry, and writes through it by
  \<open>modify_layer\<close>.
\<close>

definition getLayer :: "u8 \<Rightarrow> LayerManager \<Rightarrow> (u8 option \<times> LayerManager) option" where
  "getLayer lid =
     with_lock (\<lambda>lm. Some (if m_layers lm lid \<noteq> None then Some lid else None, lm))"

definition modify_layer :: "u8 \<Rightarrow> (Layer \<Rightarrow> Layer) \<Rightarrow> LayerManager \<Rightarrow> LayerManager" where
  "modify_layer lid f lm =
     (case m_layers lm lid of
        None \<Rightarrow> lm
      | Some layer \<Rightarrow> lm\<lparr>m_layers := (m_layers lm)(lid \<mapsto> f layer)\<rparr>)"

text \<open>
  \<^verbatim>\<open>LayerManager::getOrCreateLayer\<close>: the lookup in its own locked block, then
  \<^verbatim>\<open>createLayer\<close> after the block has released the mutex, then the second lookup.
\<close>

definition getOrCreateLayer ::
  "int \<Rightarrow> u8 \<Rightarrow> LayerManager \<Rightarrow> (u8 option \<times> LayerManager) option" where
  "getOrCreateLayer now lid lm =
     (case with_lock (\<lambda>lm. Some (m_layers lm lid \<noteq> None, lm)) lm of
        None \<Rightarrow> None
      | Some (True, lm1) \<Rightarrow> Some (Some lid, lm1)
      | Some (False, lm1) \<Rightarrow>
          (case createLayer now lid lm1 of
             None \<Rightarrow> None
           | Some (True, lm2) \<Rightarrow> with_lock (\<lambda>lm. Some (Some lid, lm)) lm2
           | Some (False, lm2) \<Rightarrow> Some (None, lm2)))"

text \<open>
  The setters: \<^verbatim>\<open>getLayer\<close>, then writes through the pointer without the lock.
  \<^verbatim>\<open>setLayerOpacity\<close> and \<^verbatim>\<open>setLayerZOrder\<close> take the parameter \<open>differs\<close> for their test
  \<^verbatim>\<open>std::abs(old - argument) > 0.001f\<close>.
\<close>

definition on_layer ::
  "u8 \<Rightarrow> (Layer \<Rightarrow> Layer) \<Rightarrow> LayerManager \<Rightarrow> (bool \<times> LayerManager) option" where
  "on_layer lid f lm =
     (case getLayer lid lm of
        None \<Rightarrow> None
      | Some (None, lm1) \<Rightarrow> Some (False, lm1)
      | Some (Some p, lm1) \<Rightarrow> Some (True, modify_layer p f lm1))"

definition setLayerVisibility :: "u8 \<Rightarrow> bool \<Rightarrow> LayerManager \<Rightarrow> (bool \<times> LayerManager) option" where
  "setLayerVisibility lid v =
     on_layer lid (\<lambda>layer. if visible layer \<noteq> v then layer\<lparr>visible := v, dirty := True\<rparr> else layer)"

definition setLayerOpacity ::
  "(fval \<Rightarrow> fval \<Rightarrow> bool) \<Rightarrow> u8 \<Rightarrow> fval \<Rightarrow> LayerManager \<Rightarrow> (bool \<times> LayerManager) option"
  where
  "setLayerOpacity differs lid x =
     on_layer lid (\<lambda>layer.
       let x' = std_clamp x (Fin 0) (Fin 1)
       in if differs (opacity layer) x' then layer\<lparr>opacity := x', dirty := True\<rparr> else layer)"

definition setLayerBlendMode ::
  "u8 \<Rightarrow> BlendMode \<Rightarrow> LayerManager \<Rightarrow> (bool \<times> LayerManager) option" where
  "setLayerBlendMode lid m =
     on_layer lid (\<lambda>layer.
       if layer_blend_mode layer \<noteq> m then layer\<lparr>layer_blend_mode := m, dirty := True\<rparr>
       else layer)"

definition setLayerZOrder ::
  "(fval \<Rightarrow> fval \<Rightarrow> bool) \<Rightarrow> u8 \<Rightarrow> fval \<Rightarrow> LayerManager \<Rightarrow> (bool \<times> LayerManager) option"
  where
  "setLayerZOrder differs lid z lm =
     (case getLayer lid lm of
        None \<Rightarrow> None
      | Some (None, lm1) \<Rightarrow> Some (False, lm1)
      | Some (Some p, lm1) \<Rightarrow>
          (case m_layers lm1 p of
             None \<Rightarrow> Some (True, lm1)
           | Some layer \<Rightarrow>
               if differs (z_order layer) z
               then Some (True, (modify_layer p (\<lambda>l. l\<lparr>z_order := z\<rparr>) lm1)\<lparr>m_needs_sort := True\<rparr>)
               else Some (True, lm1)))"

definition reset_layer :: "int \<Rightarrow> Layer \<Rightarrow> Layer" where
  "reset_layer now layer =
     layer\<lparr>object_count := 0, layer_vertex_count := 0, dirty := True, last_modified := now\<rparr>"

definition clearLayer :: "int \<Rightarrow> u8 \<Rightarrow> LayerManager \<Rightarrow> (bool \<times> LayerManager) option" where
  "clearLayer now lid = on_layer lid (reset_layer now)"

definition clearAllLayers :: "int \<Rightarrow> LayerManager \<Rightarrow> (unit \<times> LayerManager) option" where
  "clearAllLayers now =
     with_lock (\<lambda>lm. Some ((), lm\<lparr>m_layers := map_option (reset_layer now) \<circ> m_layers lm\<rparr>))"

definition markLayerDirty :: "int \<Rightarrow> u8 \<Rightarrow> LayerManager \<Rightarrow> (bool \<times> LayerManager) option" where
  "markLayerDirty now lid = on_layer lid (\<lambda>layer. layer\<lparr>dirty := True, last_modified := now\<rparr>)"

definition markLayerClean :: "u8 \<Rightarrow> LayerManager \<Rightarrow> (bool \<times> LayerManager) option" where
  "markLayerClean lid = on_layer lid (\<lambda>layer. layer\<lparr>dirty := False\<rparr>)"

text \<open>
  \<^verbatim>\<open>enableLayerCaching\<close>; \<open>loaded\<close> is the id of the texture that raylib's
  \<^verbatim>\<open>LoadRenderTexture\<close> returns (0 when it fails).
\<close>

definition enableLayerCaching :: "u8 \<Rightarrow> u32 \<Rightarrow> LayerManager \<Rightarrow> (bool \<times> LayerManager) option" where
  "enableLayerCaching lid loaded lm =
     (case getLayer lid lm of
        None \<Rightarrow> None
      | Some (None, lm1) \<Rightarrow> Some (False, lm1)
      | Some (Some p, lm1) \<Rightarrow>
          if loaded = 0
          then Some (False, modify_layer p (\<lambda>l. l\<lparr>render_texture_id := loaded\<rparr>) lm1)
          else Some (True, modify_layer p
                 (\<lambda>l. l\<lparr>render_texture_id := loaded, caching_enabled := True, dirty := True\<rparr>) lm1))"

definition disableLayerCaching :: "u8 \<Rightarrow> LayerManager \<Rightarrow> (bool \<times> LayerManager) option" where
  "disableLayerCaching lid =
     on_layer lid (\<lambda>layer. layer\<lparr>render_texture_id := 0, caching_enabled := False\<rparr>)"

definition updateLayerStats ::
  "int \<Rightarrow> u8 \<Rightarrow> u32 \<Rightarrow> u32 \<Rightarrow> LayerManager \<Rightarrow> (bool \<times> LayerManager) option" where
  "updateLayerStats now lid objects verts =
     on_layer lid (\<lambda>layer.
       layer\<lparr>object_count := objects, layer_vertex_count := verts, last_modified := now\<rparr>)"

text \<open>
  \<^verbatim>\<open>LayerManager::clear\<close>: under the lock the render textures are unloaded and the
  container is emptied; then \<^verbatim>\<open>createLayer(0)\<close> is called while the guard of
  \<^verbatim>\<open>clear\<close> is still alive.
\<close>

definition clear :: "int \<Rightarrow> LayerManager \<Rightarrow> (unit \<times> LayerManager) option" where
  "clear now =
     with_lock (\<lambda>lm.
       case createLayer now 0 (lm\<lparr>m_layers := Map.empty\<rparr>) of
         None \<Rightarrow> None
       | Some (r, lm') \<Rightarrow> Some ((), lm'))"

text \<open>
  \<^verbatim>\<open>std::chrono::duration_cast<std::chrono::minutes>(d).count()\<close> for a duration in
  clock ticks: division by the ticks of a minute, truncated towards zero.
\<close>

definition minutes_count :: "int \<Rightarrow> int" where
  "minutes_count d =
     (if d \<ge> 0 then d div (60 * one_second) else - ((- d) div (60 * one_second)))"

text \<open>
  \<^verbatim>\<open>LayerManager::optimizeLayers\<close>. The first loop skips layer 0, collects the empty
  layers idle for more than five minutes and drops the cache of empty cached layers
  idle for more than two; the second loop erases the collected layers.
\<close>

definition layer_to_remove :: "int \<Rightarrow> Layer \<Rightarrow> bool" where
  "layer_to_remove now layer =
     (object_count layer = 0 \<and> minutes_count (now - last_modified layer) > 5)"

definition drop_idle_cache :: "int \<Rightarrow> Layer \<Rightarrow> Layer" where
  "drop_idle_cache now layer =
     (if caching_enabled layer \<and> object_count layer = 0 \<and>
         minutes_count (now - last_modified layer) > 2
      then layer\<lparr>render_texture_id := 0, caching_enabled := False\<rparr>
      else layer)"

definition optimizeLayers :: "int \<Rightarrow> LayerManager \<Rightarrow> (unit \<times> LayerManager) option" where
  "optimizeLayers now =
     with_lock (\<lambda>lm.
       Some ((), lm\<lparr>m_layers := (\<lambda>lid.
         case m_layers lm lid of
           None \<Rightarrow> None
         | Some layer \<Rightarrow>
             if lid = 0 then Some layer
             else if layer_to_remove now layer then None
             else Some (drop_idle_cache now layer))\<rparr>))"

text \<open>
  \<^verbatim>\<open>std::sort(first, last, comp)\<close>: the standard guarantees that the result is a
  permutation of the input in which no element is ordered before an earlier one by
  \<open>cmp\<close>; the order of equivalent elements is unspecified (the sort is not stable).
  The model is the relation between the input and every result the standard allows.
\<close>

definition std_sort_result :: "('a \<Rightarrow> 'a \<Rightarrow> bool) \<Rightarrow> 'a list \<Rightarrow> 'a list \<Rightarrow> bool" where
  "std_sort_result cmp xs ys = (mset ys = mset xs \<and> sorted_wrt (\<lambda>a b. \<not> cmp b a) ys)"

text \<open>
  \<^verbatim>\<open>LayerManager::getLayersInRenderOrder\<close>. The loop pushes the visible layers in the
  iteration order of the container, which depends on the container's type and is the
  parameter \<open>iter\<close> (the keys of \<^verbatim>\<open>m_layers\<close>, each once). The comparison of the sort
  is \<^verbatim>\<open>a->z_order < b->z_order\<close>. The function is the relation between the state and
  every pair of a returned vector (of pointers, as keys) and a state afterwards.
\<close>

definition iteration_of :: "u8 list \<Rightarrow> LayerManager \<Rightarrow> bool" where
  "iteration_of iter lm = (distinct iter \<and> set iter = dom (m_layers lm))"

definition is_visible :: "LayerManager \<Rightarrow> u8 \<Rightarrow> bool" where
  "is_visible lm p = (case m_layers lm p of None \<Rightarrow> False | Some layer \<Rightarrow> visible layer)"

definition layer_z :: "LayerManager \<Rightarrow> u8 \<Rightarrow> fval" where
  "layer_z lm p = (case m_layers lm p of None \<Rightarrow> Fin 0 | Some layer \<Rightarrow> z_order layer)"

definition visible_layers :: "u8 list \<Rightarrow> LayerManager \<Rightarrow> u8 list" where
  "visible_layers iter lm = filter (is_visible lm) iter"

definition getLayersInRenderOrder ::
  "u8 list \<Rightarrow> LayerManager \<Rightarrow> u8 list \<times> LayerManager \<Rightarrow> bool" where
  "getLayersInRenderOrder iter lm res =
     (case res of (layers', lm') \<Rightarrow>
        \<not> m_layers_mutex lm \<and>
        (let layers = visible_layers iter lm
         in if m_needs_sort lm \<or> length layers > 1
            then std_sort_result (\<lambda>a b. layer_z lm a < layer_z lm b) layers layers' \<and>
                 lm' = lm\<lparr>m_needs_sort := False\<rparr>
            else layers' = layers \<and> lm' = lm))"

text \<open>The state after \<^verbatim>\<open>getLayersInRenderOrder\<close>, which does not depend on the result.\<close>

definition getLayersInRenderOrder_state :: "u8 list \<Rightarrow> LayerManager \<Rightarrow> LayerManager option" where
  "getLayersInRenderOrder_state iter lm =
     (if m_layers_mutex lm then None
      else if m_needs_sort lm \<or> length (visible_layers iter lm) > 1
           then Some (lm\<lparr>m_needs_sort := False\<rparr>)
           else Some lm)"

text \<open>
  The tie-break of the specification for the render order: among layers of equal
  z-order the one with the smaller id comes first.
\<close>

definition id_tiebreak :: "LayerManager \<Rightarrow> u8 list \<Rightarrow> bool" where
  "id_tiebreak lm layers =
     sorted_wrt (\<lambda>a b. layer_z lm a = layer_z lm b \<longrightarrow> a < b) layers"

text \<open>
  The operations of the registry that change its state, each with the clock reading
  it uses, and a sequence of calls from one thread. A call that does not return ends
  the sequence with \<open>None\<close>.
\<close>

datatype LayerOp =
    CreateLayer u8
  | DeleteLayer u8
  | GetOrCreateLayer u8
  | SetLayerVisibility u8 bool
  | SetLayerOpacity u8 fval
  | SetLayerBlendMode u8 BlendMode
  | SetLayerZOrder u8 fval
  | ClearLayer u8
  | ClearAllLayers
  | MarkLayerDirty u8
  | MarkLayerClean u8
  | EnableLayerCaching u8 u32
  | DisableLayerCaching u8
  | UpdateLayerStats u8 u32 u32
  | GetLayersInRenderOrder "u8 list"
  | OptimizeLayers
  | Clear

fun apply_op ::
  "(fval \<Rightarrow> fval \<Rightarrow> bool) \<Rightarrow> int \<Rightarrow> LayerOp \<Rightarrow> LayerManager \<Rightarrow> LayerManager option" where
  "apply_op differs now (CreateLayer lid) lm = map_option snd (createLayer now lid lm)"
| "apply_op differs now (DeleteLayer lid) lm = map_option snd (deleteLayer lid lm)"
| "apply_op differs now (GetOrCreateLayer lid) lm = map_option snd (getOrCreateLayer now lid lm)"
| "apply_op differs now (SetLayerVisibility lid v) lm = map_option snd (setLayerVisibility lid v lm)"
| "apply_op differs now (SetLayerOpacity lid x) lm = map_option snd (setLayerOpacity differs lid x lm)"
| "apply_op differs now (SetLayerBlendMode lid m) lm = map_option snd (setLayerBlendMode lid m lm)"
| "apply_op differs now (SetLayerZOrder lid z) lm = map_option snd (setLayerZOrder differs lid z lm)"
| "apply_op differs now (ClearLayer lid) lm = map_option snd (clearLayer now lid lm)"
| "apply_op differs now ClearAllLayers lm = map_option snd (clearAllLayers now lm)"
| "apply_op differs now (MarkLayerDirty lid) lm = map_option snd (markLayerDirty now lid lm)"
| "apply_op differs now (MarkLayerClean lid) lm = map_option snd (markLayerClean lid lm)"
| "apply_op differs now (EnableLayerCaching lid loaded) lm =
     map_option snd (enableLayerCaching lid loaded lm)"
| "apply_op differs now (DisableLayerCaching lid) lm = map_option snd (disableLayerCaching lid lm)"
| "apply_op differs now (UpdateLayerStats lid objects verts) lm =
     map_option snd (updateLayerStats now lid objects verts lm)"
| "apply_op differs now (GetLayersInRenderOrder iter) lm = getLayersInRenderOrder_state iter lm"
| "apply_op differs now OptimizeLayers lm = map_option snd (optimizeLayers now lm)"
| "apply_op differs now Clear lm = map_option snd (clear now lm)"

fun apply_ops ::
  "(fval \<Rightarrow> fval \<Rightarrow> bool) \<Rightarrow> (int \<times> LayerOp) list \<Rightarrow> LayerManager \<Rightarrow> LayerManager option" where
  "apply_ops differs [] lm = Some lm"
| "apply_ops differs ((now, op) # ops) lm =
     (case apply_op differs now op lm of None \<Rightarrow> None | Some lm' \<Rightarrow> apply_ops differs ops lm')"

text \<open>
  The invariant of the registry between calls: the mutex is free and layer 0 is
  present.
\<close>

definition layer0_inv :: "LayerManager \<Rightarrow> bool" where
  "layer0_inv lm = (\<not> m_layers_mutex lm \<and> m_layers lm 0 \<noteq> None)"

section \<open>Render commands (Graphics/RenderCommand.hpp, Core/CommandProcessor.cpp)\<close>

text \<open>
  \<^verbatim>\<open>RenderCommand::Type\<close>, and the anonymous union of \<^verbatim>\<open>RenderCommand\<close> as a tagged
  value (\<open>NoData\<close> when no member has been written). A \<^verbatim>\<open>Point\<close> is its two
  \<^verbatim>\<open>float\<close>s; floats are only copied here and are carried as their 32-bit patterns
  (\<open>0x3F800000\<close> is \<^verbatim>\<open>1.0f\<close>). A \<^verbatim>\<open>Color\<close> built from four components has
  \<^verbatim>\<open>rgba = (r << 24) | (g << 16) | (b << 8) | a\<close>.
\<close>

datatype RenderCommandType =
    RC_DRAW_POINT | RC_DRAW_LINE | RC_DRAW_RECTANGLE | RC_DRAW_CIRCLE | RC_DRAW_POLYGON
  | RC_DRAW_TEXT | RC_DRAW_TEXTURED_QUADS | RC_CLEAR_LAYER | RC_SET_LAYER_VISIBILITY
  | RC_SET_VIEWPORT | RC_SET_CAMERA | RC_BATCH_MARKER

type_synonym Point = "u32 \<times> u32"

definition Color_of :: "u8 \<Rightarrow> u8 \<Rightarrow> u8 \<Rightarrow> u8 \<Rightarrow> Color" where
  "Color_of r g b a =
     \<lparr>red = r, green = g, blue = b, alpha = a,
      rgba = push_bit 24 (ucast r) OR push_bit 16 (ucast g) OR push_bit 8 (ucast b) OR ucast a\<rparr>"

datatype CommandData =
    NoData
  | PointData Point Color
  | LineData Point Point Color u32
  | RectangleData Point u32 u32 Color bool
  | TextData Point u32 u32 Color
  | TexturedQuadsData u32

text \<open>
  \<^verbatim>\<open>struct RenderCommand\<close>: the fields the converter writes (\<open>cmd_type\<close> is \<^verbatim>\<open>type\<close>,
  \<open>cmd_layer_id\<close> is \<^verbatim>\<open>layer_id\<close>, \<open>cmd_vertices\<close> is \<^verbatim>\<open>vertices\<close>). The creation
  time and the estimate of memory usage, which depends on \<^verbatim>\<open>sizeof(RenderCommand)\<close>,
  are left out. A \<^verbatim>\<open>std::string\<close> is its bytes.
\<close>

record RenderCommand =
  cmd_type :: RenderCommandType
  priority :: Priority
  cmd_layer_id :: u8
  cmd_client_id :: u32
  sequence_id :: u32
  cmd_timestamp :: u64
  cmd_data :: CommandData
  text_string :: "u8 list"
  cmd_vertices :: "TexturedVertex list"
  estimated_vertex_count :: nat

text \<open>
  \<^verbatim>\<open>RenderCommand()\<close> and \<^verbatim>\<open>RenderCommand(cmd_type, layer, prio = NORMAL)\<close>.
\<close>

definition RenderCommand_new :: "RenderCommandType \<Rightarrow> u8 \<Rightarrow> RenderCommand" where
  "RenderCommand_new t layer =
     \<lparr>cmd_type = t, priority = NORMAL, cmd_layer_id = layer, cmd_client_id = 0,
      sequence_id = 0, cmd_timestamp = 0, cmd_data = NoData, text_string = [],
      cmd_vertices = [], estimated_vertex_count = 0\<rparr>"

definition RenderCommand_default :: RenderCommand where
  "RenderCommand_default = RenderCommand_new RC_DRAW_POINT 0"

text \<open>
  The converter receives the payload as a bare pointer (\<^verbatim>\<open>const void* data\<close>, from
  \<^verbatim>\<open>data.data()\<close>) and reads through it without knowing its length. The memory at
  the pointer is a function from offsets to bytes: the payload first, and past its
  end whatever lies behind it in the process's memory (\<open>beyond\<close>). Reading there is
  undefined behaviour in the source; the model describes the runs in which the read
  does not fault.
\<close>

definition memory_at :: "u8 list \<Rightarrow> (nat \<Rightarrow> u8) \<Rightarrow> nat \<Rightarrow> u8" where
  "memory_at payload beyond i =
     (if i < length payload then payload ! i else beyond (i - length payload))"

definition read_bytes :: "(nat \<Rightarrow> u8) \<Rightarrow> nat \<Rightarrow> nat \<Rightarrow> u8 list" where
  "read_bytes mem off n = map mem [off ..< off + n]"

definition read_u16 :: "byte_order \<Rightarrow> (nat \<Rightarrow> u8) \<Rightarrow> nat \<Rightarrow> u16" where
  "read_u16 e mem off = load e (read_bytes mem off 2)"

definition read_u32 :: "byte_order \<Rightarrow> (nat \<Rightarrow> u8) \<Rightarrow> nat \<Rightarrow> u32" where
  "read_u32 e mem off = load e (read_bytes mem off 4)"

definition read_Point :: "byte_order \<Rightarrow> (nat \<Rightarrow> u8) \<Rightarrow> nat \<Rightarrow> Point" where
  "read_Point e mem off = (read_u32 e mem off, read_u32 e mem (off + 4))"

text \<open>\<^verbatim>\<open>struct TexturedVertex\<close> in memory: four floats and the colour, 20 bytes.\<close>

definition read_TexturedVertex :: "byte_order \<Rightarrow> (nat \<Rightarrow> u8) \<Rightarrow> nat \<Rightarrow> TexturedVertex" where
  "read_TexturedVertex e mem off =
     \<lparr>vx = read_u32 e mem off, vy = read_u32 e mem (off + 4), vu = read_u32 e mem (off + 8),
      vv = read_u32 e mem (off + 12), vcolor = read_u32 e mem (off + 16)\<rparr>"

text \<open>
  The packed payload structs of Protocol.hpp and their sizes:
  \<^verbatim>\<open>DrawTextData\<close> is gc_id (0), font_id (4), position (8), font_size (16),
  text_length (20), reserved (22), 24 bytes; \<^verbatim>\<open>DrawTexturedQuadsData\<close> is gc_id (0),
  texture_id (4), quad_count (8), reserved (12), 16 bytes; \<^verbatim>\<open>DrawPointData\<close> is gc_id
  (0), position (4); \<^verbatim>\<open>DrawLineData\<close> is gc_id (0), start (4), end (12);
  \<^verbatim>\<open>DrawRectangleData\<close> is gc_id (0), position (4), width (12), height (16).
\<close>

definition sizeof_DrawTextData :: nat where "sizeof_DrawTextData = 24"

definition sizeof_DrawTexturedQuadsData :: nat where "sizeof_DrawTexturedQuadsData = 16"

definition sizeof_TexturedVertex :: nat where "sizeof_TexturedVertex = 20"

definition WHITE :: Color where "WHITE = Color_of 255 255 255 255"

text \<open>\<^verbatim>\<open>CommandConverter::fromDrawPointData\<close> and its siblings.\<close>

definition fromDrawPointData :: "Point \<Rightarrow> u8 \<Rightarrow> RenderCommand" where
  "fromDrawPointData position layer =
     (RenderCommand_new RC_DRAW_POINT layer)
       \<lparr>cmd_data := PointData position WHITE, estimated_vertex_count := 1\<rparr>"

definition fromDrawLineData :: "Point \<Rightarrow> Point \<Rightarrow> u8 \<Rightarrow> RenderCommand" where
  "fromDrawLineData start finish layer =
     (RenderCommand_new RC_DRAW_LINE layer)
       \<lparr>cmd_data := LineData start finish WHITE 0x3F800000, estimated_vertex_count := 2\<rparr>"

definition fromDrawRectangleData :: "Point \<Rightarrow> u32 \<Rightarrow> u32 \<Rightarrow> u8 \<Rightarrow> bool \<Rightarrow> RenderCommand" where
  "fromDrawRectangleData position width height layer filled =
     (RenderCommand_new RC_DRAW_RECTANGLE layer)
       \<lparr>cmd_data := RectangleData position width height WHITE filled,
        estimated_vertex_count := (if filled then 4 else 8)\<rparr>"

definition fromDrawTextData :: "Point \<Rightarrow> u32 \<Rightarrow> u32 \<Rightarrow> u8 list \<Rightarrow> u8 \<Rightarrow> RenderCommand" where
  "fromDrawTextData position font font_size text layer =
     (RenderCommand_new RC_DRAW_TEXT layer)
       \<lparr>cmd_data := TextData position font font_size WHITE, text_string := text,
        estimated_vertex_count := length text * 6\<rparr>"

definition fromDrawTexturedQuadsData :: "u32 \<Rightarrow> TexturedVertex list \<Rightarrow> u8 \<Rightarrow> RenderCommand" where
  "fromDrawTexturedQuadsData tex verts layer =
     (RenderCommand_new RC_DRAW_TEXTURED_QUADS layer)
       \<lparr>cmd_data := TexturedQuadsData tex, cmd_vertices := verts,
        estimated_vertex_count := length verts\<rparr>"

text \<open>
  \<^verbatim>\<open>CommandConverter::fromNetworkMessage(header, data)\<close>: the switch on the message
  type. The payload is not byte-swapped; its fields are read in the byte order of the
  host. The text is built from \<^verbatim>\<open>text_length\<close> bytes after the prefix, the vertices
  from \<^verbatim>\<open>quad_count * 4\<close> (a \<^verbatim>\<open>uint32_t\<close> product) vertices after the prefix; the function
  never consults \<^verbatim>\<open>header.data_size\<close> and has no failing branch.
\<close>

definition fromNetworkMessage :: "byte_order \<Rightarrow> MessageHeader \<Rightarrow> (nat \<Rightarrow> u8) \<Rightarrow> RenderCommand" where
  "fromNetworkMessage e header mem =
     (if type header = DRAW_POINT
        then fromDrawPointData (read_Point e mem 4) (layer_id header)
      else if type header = DRAW_LINE
        then fromDrawLineData (read_Point e mem 4) (read_Point e mem 12) (layer_id header)
      else if type header = DRAW_RECTANGLE
        then fromDrawRectangleData (read_Point e mem 4) (read_u32 e mem 12) (read_u32 e mem 16)
               (layer_id header) False
      else if type header = FILL_RECTANGLE
        then fromDrawRectangleData (read_Point e mem 4) (read_u32 e mem 12) (read_u32 e mem 16)
               (layer_id header) True
      else if type header = DRAW_TEXT
        then
          let text_length = read_u16 e mem 20;
              text = read_bytes mem sizeof_DrawTextData (unat text_length)
          in fromDrawTextData (read_Point e mem 8) (read_u32 e mem 4) (read_u32 e mem 16)
               text (layer_id header)
      else if type header = DRAW_TEXTURED_QUADS
        then
          let quad_count = read_u32 e mem 8;
              vertex_vector =
                map (\<lambda>k. read_TexturedVertex e mem
                            (sizeof_DrawTexturedQuadsData + k * sizeof_TexturedVertex))
                    [0 ..< unat (quad_count * 4)]
          in fromDrawTexturedQuadsData (read_u32 e mem 4) vertex_vector (layer_id header)
      else if type header = CLEAR_LAYER
        then RenderCommand_new RC_CLEAR_LAYER (layer_id header)
      else RenderCommand_default)"

text \<open>
  The result of the parsing helpers of shared/src/Serialization.cpp: \<open>Rejected\<close> is
  \<^verbatim>\<open>return false\<close>, \<open>Parsed\<close> is \<^verbatim>\<open>return true\<close> with the output parameters, and
  \<open>Undefined_read\<close> stands for a copy that runs past the end of the buffer, which
  the helpers do not exclude (they compare the tail with \<^verbatim>\<open>header.data_size\<close>, not
  with \<^verbatim>\<open>buffer.size()\<close>).
\<close>

datatype 'a parse_result = Rejected | Undefined_read | Parsed 'a

text \<open>
  \<^verbatim>\<open>parseDrawTextMessage(buffer, header, text_data, text)\<close>; the parsed text data are
  returned as (gc_id, font_id, position, font_size, text_length, reserved).
\<close>

definition parseDrawTextMessage ::
  "byte_order \<Rightarrow> u8 list \<Rightarrow>
   (MessageHeader \<times> (u32 \<times> u32 \<times> Point \<times> u32 \<times> u16 \<times> u16) \<times> u8 list) parse_result" where
  "parseDrawTextMessage e buffer =
     (if length buffer < 32 + sizeof_DrawTextData then Rejected
      else
        let header = networkToHost e (header_from_bytes e (bytes_at 0 32 buffer))
        in if \<not> validateHeader header then Rejected
           else if unat (data_size header) < sizeof_DrawTextData then Rejected
           else
             let mem = memory_at (drop 32 buffer) (\<lambda>i. 0);
                 text_length = read_u16 e mem 20
             in if unat text_length > unat (data_size header) - sizeof_DrawTextData
                then Rejected
                else if length buffer < 32 + sizeof_DrawTextData + unat text_length
                then Undefined_read
                else Parsed (header,
                       (read_u32 e mem 0, read_u32 e mem 4, read_Point e mem 8,
                        read_u32 e mem 16, text_length, read_u16 e mem 22),
                       bytes_at (32 + sizeof_DrawTextData) (unat text_length) buffer))"

text \<open>
  \<^verbatim>\<open>parseDrawTexturedQuadsMessage\<close>; the vertex count is the \<^verbatim>\<open>uint32_t\<close> product
  \<^verbatim>\<open>quad_count * 4\<close> converted to \<^verbatim>\<open>size_t\<close>.
\<close>

definition parseDrawTexturedQuadsMessage ::
  "byte_order \<Rightarrow> u8 list \<Rightarrow>
   (MessageHeader \<times> (u32 \<times> u32 \<times> u32 \<times> u32) \<times> TexturedVertex list) parse_result" where
  "parseDrawTexturedQuadsMessage e buffer =
     (if length buffer < 32 + sizeof_DrawTexturedQuadsData then Rejected
      else
        let header = networkToHost e (header_from_bytes e (bytes_at 0 32 buffer))
        in if \<not> validateHeader header then Rejected
           else if unat (data_size header) < sizeof_DrawTexturedQuadsData then Rejected
           else
             let mem = memory_at (drop 32 buffer) (\<lambda>i. 0);
                 quad_count = read_u32 e mem 8;
                 expected_vertex_count = unat (quad_count * 4);
                 expected_vertices_size = expected_vertex_count * sizeof_TexturedVertex
             in if expected_vertices_size >
                     unat (data_size header) - sizeof_DrawTexturedQuadsData
                then Rejected
                else if length buffer <
                          32 + sizeof_DrawTexturedQuadsData + expected_vertices_size
                then Undefined_read
                else Parsed (header,
                       (read_u32 e mem 0, read_u32 e mem 4, quad_count, read_u32 e mem 12),
                       map (\<lambda>k. read_TexturedVertex e mem
                                   (sizeof_DrawTexturedQuadsData + k * sizeof_TexturedVertex))
                           [0 ..< expected_vertex_count]))"

section \<open>Render command queue (Graphics/RenderCommand.hpp)\<close>

text \<open>
  Modelled from the spec: the member functions of \<^verbatim>\<open>RenderCommandQueue\<close>
  (\<^verbatim>\<open>enqueue\<close>, \<^verbatim>\<open>dequeue\<close>, \<^verbatim>\<open>dequeueBatch\<close>), which are declared in
  RenderCommand.hpp and called by CommandProcessor and Server but whose definitions
  are not among the sources. The specification describes a bounded multi-priority
  FIFO with a single consumer: the capacity is fixed at construction; \<^verbatim>\<open>enqueue\<close>
  returns ok or dropped and a producer drops when the queue is full; same-priority
  commands dequeue in enqueue order and higher-priority commands preempt
  lower-priority commands at the head (Critical > High > Normal > Low);
  \<^verbatim>\<open>dequeue_batch(max)\<close> returns up to \<open>max\<close> commands, possibly fewer, without
  blocking; and total_enqueued = total_dequeued + total_dropped + resident.
  The resident commands are kept in the order of their insertion.
\<close>

record RenderCommandQueue =
  m_commands :: "RenderCommand list"
  m_max_size :: nat
  total_enqueued :: nat
  total_dequeued :: nat
  total_dropped :: nat
  peak_size :: nat

definition RenderCommandQueue_new :: "nat \<Rightarrow> RenderCommandQueue" where
  "RenderCommandQueue_new max_size =
     \<lparr>m_commands = [], m_max_size = max_size, total_enqueued = 0, total_dequeued = 0,
      total_dropped = 0, peak_size = 0\<rparr>"

definition enqueue :: "RenderCommand \<Rightarrow> RenderCommandQueue \<Rightarrow> bool \<times> RenderCommandQueue" where
  "enqueue command q =
     (if length (m_commands q) \<ge> m_max_size q
      then (False, q\<lparr>total_enqueued := total_enqueued q + 1,
                      total_dropped := total_dropped q + 1\<rparr>)
      else (True, q\<lparr>m_commands := m_commands q @ [command],
                     total_enqueued := total_enqueued q + 1,
                     peak_size := max (peak_size q) (length (m_commands q) + 1)\<rparr>))"

text \<open>
  The first resident command of a priority class, and the rest of the queue without
  it.
\<close>

fun take_first :: "Priority \<Rightarrow> RenderCommand list \<Rightarrow> (RenderCommand \<times> RenderCommand list) option"
  where
  "take_first p [] = None"
| "take_first p (c # cs) =
     (if priority c = p then Some (c, cs)
      else case take_first p cs of
             None \<Rightarrow> None
           | Some (x, rest) \<Rightarrow> Some (x, c # rest))"

text \<open>
  The head of the queue: the oldest command of the highest priority class that has a
  resident command.
\<close>

definition take_head :: "RenderCommand list \<Rightarrow> (RenderCommand \<times> RenderCommand list) option" where
  "take_head cs =
     (case take_first CRITICAL cs of Some r \<Rightarrow> Some r | None \<Rightarrow>
      case take_first HIGH cs of Some r \<Rightarrow> Some r | None \<Rightarrow>
      case take_first NORMAL cs of Some r \<Rightarrow> Some r | None \<Rightarrow>
      take_first LOW cs)"

definition dequeue :: "RenderCommandQueue \<Rightarrow> RenderCommand option \<times> RenderCommandQueue" where
  "dequeue q =
     (case take_head (m_commands q) of
        None \<Rightarrow> (None, q)
      | Some (x, rest) \<Rightarrow>
          (Some x, q\<lparr>m_commands := rest, total_dequeued := total_dequeued q + 1\<rparr>))"

fun dequeueBatch :: "nat \<Rightarrow> RenderCommandQueue \<Rightarrow> RenderCommand list \<times> RenderCommandQueue" where
  "dequeueBatch 0 q = ([], q)"
| "dequeueBatch (Suc n) q =
     (case dequeue q of
        (None, q') \<Rightarrow> ([], q')
      | (Some x, q') \<Rightarrow> (case dequeueBatch n q' of (xs, q'') \<Rightarrow> (x # xs, q'')))"

text \<open>
  The order in which the consumer is to see a set of resident commands: class by
  class from Critical down to Low, each class in insertion order.
\<close>

definition priority_then_fifo :: "RenderCommand list \<Rightarrow> RenderCommand list" where
  "priority_then_fifo cs =
     filter (\<lambda>c. priority c = CRITICAL) cs @ filter (\<lambda>c. priority c = HIGH) cs @
     filter (\<lambda>c. priority c = NORMAL) cs @ filter (\<lambda>c. priority c = LOW) cs"

section \<open>Message type constants\<close>

lemmas MessageType_defs =
  CLIENT_HELLO_def SERVER_HELLO_def DRAW_POINT_def DRAW_LINE_def DRAW_RECTANGLE_def
  FILL_RECTANGLE_def DRAW_ARC_def FILL_ARC_def DRAW_POLYGON_def FILL_POLYGON_def
  DRAW_TEXT_def DRAW_IMAGE_STRING_def DRAW_TEXTURED_QUADS_def CREATE_GC_def FREE_GC_def
  SET_FOREGROUND_def SET_BACKGROUND_def SET_LINE_ATTRIBUTES_def SET_FILL_STYLE_def
  SET_FONT_SIZE_def SET_FUNCTION_def UPLOAD_FONT_TEXTURE_def CREATE_PIXMAP_def
  FREE_PIXMAP_def CLEAR_LAYER_def CLEAR_ALL_LAYERS_def SET_LAYER_VISIBILITY_def
  BATCH_BEGIN_def BATCH_END_def INPUT_EVENT_def FRAME_CALLBACK_def PING_def PONG_def
  ERROR_RESPONSE_def DISCONNECT_def

section \<open>Wire codec\<close>

lemma from_le_le_bytes: "from_le (le_bytes n w) = take_bit (8 * n) (w :: 'a::len word)"
proof (induction n arbitrary: w)
  case 0 show ?case by simp
next
  case (Suc n)
  show ?case
    apply (simp add: Suc)
    apply (rule bit_word_eqI)
    apply (auto simp: bit_simps)
    done
qed

lemma length_le_bytes [simp]: "length (le_bytes n w) = n"
  by (induction n arbitrary: w) auto

lemma bit_from_le_bound: "bit (from_le bs :: 'a::len word) n \<Longrightarrow> n < 8 * length bs"
proof (induction bs arbitrary: n)
  case Nil then show ?case by simp
next
  case (Cons b bs)
  from Cons.prems have "bit b n \<or> (8 \<le> n \<and> bit (from_le bs :: 'a word) (n - 8))"
    by (auto simp: bit_simps)
  then show ?case
  proof
    assume "bit b n"
    then have "n < 8" using bit_imp_le_length [of b n] by simp
    then show ?thesis by simp
  next
    assume "8 \<le> n \<and> bit (from_le bs :: 'a word) (n - 8)"
    then have "8 \<le> n" and "n - 8 < 8 * length bs" using Cons.IH by auto
    then show ?thesis by simp
  qed
qed

lemma le_bytes_from_le:
  "8 * length bs \<le> LENGTH('a) \<Longrightarrow> le_bytes (length bs) (from_le bs :: 'a::len word) = bs"
proof (induction bs)
  case Nil show ?case by simp
next
  case (Cons b bs)
  have 1: "ucast (ucast b OR push_bit 8 (from_le bs :: 'a word) :: 'a word) = b"
    using Cons.prems
    apply -
    apply (rule bit_word_eqI)
    apply (auto simp: bit_simps)
    done
  have 2: "drop_bit 8 (ucast b OR push_bit 8 (from_le bs :: 'a word) :: 'a word) = from_le bs"
    using Cons.prems
    apply -
    apply (rule bit_word_eqI)
    apply (auto simp: bit_simps dest: bit_imp_le_length bit_from_le_bound)
    done
  show ?case using Cons 1 2 by simp
qed

lemma length_be_bytes [simp]: "length (be_bytes n w) = n"
  by (simp add: be_bytes_def)

lemma le_bytes_bswap:
  "8 * n \<le> LENGTH('a) \<Longrightarrow> le_bytes n (bswap n w :: 'a::len word) = rev (le_bytes n w)"
  using le_bytes_from_le [of "rev (le_bytes n w)", where 'a='a]
  by (simp add: bswap_def)

lemma store_hton:
  "8 * n \<le> LENGTH('a) \<Longrightarrow>
   store e n (case e of LittleEndian \<Rightarrow> bswap n w | BigEndian \<Rightarrow> (w :: 'a::len word)) = be_bytes n w"
  by (cases e) (simp_all add: store_def be_bytes_def le_bytes_bswap)

lemma ntoh_load:
  "8 * n = LENGTH('a) \<Longrightarrow>
   (case e of LittleEndian \<Rightarrow> bswap n (load e (be_bytes n w)) | BigEndian \<Rightarrow> load e (be_bytes n w))
     = (w :: 'a::len word)"
proof (cases e)
  case LittleEndian
  assume n: "8 * n = LENGTH('a)"
  have "le_bytes n (from_le (rev (le_bytes n w)) :: 'a word) = rev (le_bytes n w)"
    using le_bytes_from_le [of "rev (le_bytes n w)", where 'a='a] n by simp
  then have "bswap n (from_le (rev (le_bytes n w)) :: 'a word) = from_le (le_bytes n w)"
    by (simp add: bswap_def)
  also have "\<dots> = w" using n by (simp add: from_le_le_bytes)
  finally show ?thesis using LittleEndian by (simp add: load_def be_bytes_def)
next
  case BigEndian
  assume n: "8 * n = LENGTH('a)"
  then show ?thesis using BigEndian by (simp add: load_def be_bytes_def from_le_le_bytes)
qed

lemma length_wire_header [simp]: "length (wire_header h) = 32"
  by (simp add: wire_header_def)

lemma header_to_bytes_hostToNetwork:
  "header_to_bytes e (hostToNetwork e h) = wire_header h"
  by (simp add: header_to_bytes_def hostToNetwork_def wire_header_def htonl_def htons_def
      htobe64_def store_hton)

lemma from_le_single [simp]: "from_le [b] = (b :: u8)"
  by simp

lemma networkToHost_header_from_bytes:
  "networkToHost e (header_from_bytes e (wire_header h)) = h"
  by (simp add: header_from_bytes_def networkToHost_def wire_header_def bytes_at_def
      ntohl_def ntohs_def be64toh_def ntoh_load)


lemma createMessage_wire:
  assumes "length payload = unat (data_size h)"
  shows "createMessage e h (Some payload) = Some (wire_header h @ payload)"
  using assms
  by (auto simp: createMessage_def Let_def header_to_bytes_hostToNetwork word_greater_zero_iff unat_eq_0)

lemma validateHeader_wellformed:
  assumes "magic h = 0x4B41524F" "protocol_version h = PROTOCOL_VERSION"
    "data_size h \<le> 10 * 1024 * 1024"
  shows "validateHeader h"
proof -
  have "(255 :: u8) = - 1" by simp
  then have "type h \<le> 255" by (metis word_order.extremum)
  then show ?thesis using assms by (simp add: validateHeader_def DISCONNECT_def not_less)
qed

lemma parseMessages_loop_done:
  "length (m_receive_buffer c) - m_receive_buffer_pos c < 32 \<Longrightarrow> parseMessages_loop e c = (True, c)"
  by (subst parseMessages_loop.simps) simp

lemma parseMessages_wire:
  assumes wf: "validateHeader h" "data_size h \<le> max_message_size (m_config c)"
    and len: "length payload = unat (data_size h)"
  shows "parseMessages e
           (c\<lparr>m_receive_buffer := wire_header h @ payload, m_receive_buffer_pos := 0\<rparr>)
         = (True, c\<lparr>m_parsed_messages := m_parsed_messages c @ [(h, payload)],
                     m_receive_buffer := [], m_receive_buffer_pos := 0\<rparr>)"
proof -
  let ?c0 = "c\<lparr>m_receive_buffer := wire_header h @ payload, m_receive_buffer_pos := 0\<rparr>"
  let ?c1 = "?c0\<lparr>m_parsed_messages := m_parsed_messages ?c0 @ [(h, payload)],
                    m_receive_buffer_pos := m_receive_buffer_pos ?c0 + (32 + unat (data_size h))\<rparr>"
  have hdr: "networkToHost e (header_from_bytes e (bytes_at 0 32 (wire_header h @ payload))) = h"
    by (simp add: bytes_at_def networkToHost_header_from_bytes)
  have val: "validateMessageHeader ?c0 h"
    using wf by (simp add: validateMessageHeader_def validateMessageSize_def word_le_nat_alt)
  have data1: "bytes_at 32 (unat (data_size h)) (wire_header h @ payload) = payload"
    using len by (simp add: bytes_at_def)
  have data2: "\<not> 0 < data_size h \<Longrightarrow> payload = []"
    using len by (simp add: word_greater_zero_iff unat_eq_0)
  have step: "parseMessages_loop e ?c0 = parseMessages_loop e ?c1"
    apply (subst parseMessages_loop.simps)
    using hdr val data1 data2 len
    apply (simp add: Let_def)
    done
  have fin: "parseMessages_loop e ?c1 = (True, ?c1)"
    by (rule parseMessages_loop_done) (simp add: len)
  show ?thesis
    unfolding parseMessages_def step fin
    using len by (simp add: compactReceiveBuffer_def)
qed

text \<open>
  C1. Round trip: for every well-formed message (valid magic, negotiated version, known
  tag, data_size at most 10 MiB, payload of exactly data_size bytes), the bytes built
  by ProtocolHelper::createMessage on a host of either byte order are parsed by
  Client::parseMessages, on a host of either byte order, into exactly the original
  header and payload; the whole buffer is consumed. The session's own ceiling
  \<^verbatim>\<open>m_config.max_message_size\<close>, which parseMessages checks as well and which is
  10 MiB in every client the server creates, must admit the message.
\<close>

theorem createMessage_parseMessages_roundtrip:
  assumes "magic h = 0x4B41524F"
    and "protocol_version h = PROTOCOL_VERSION"
    and "is_known_tag (type h)"
    and "data_size h \<le> 10 * 1024 * 1024"
    and "length payload = unat (data_size h)"
    and "data_size h \<le> max_message_size (m_config c)"
  shows "\<exists>bytes. createMessage e1 h (Some payload) = Some bytes \<and>
           length bytes = 32 + unat (data_size h) \<and>
           parseMessages e2 (c\<lparr>m_receive_buffer := bytes, m_receive_buffer_pos := 0\<rparr>)
             = (True, c\<lparr>m_parsed_messages := m_parsed_messages c @ [(h, payload)],
                         m_receive_buffer := [], m_receive_buffer_pos := 0\<rparr>)"
proof -
  have v: "validateHeader h"
    using assms(1,2,4) by (rule validateHeader_wellformed)
  have "createMessage e1 h (Some payload) = Some (wire_header h @ payload)"
    using assms(5) by (rule createMessage_wire)
  moreover have "length (wire_header h @ payload) = 32 + unat (data_size h)"
    using assms(5) by simp
  moreover note parseMessages_wire [OF v assms(6) assms(5), of e2]
  ultimately show ?thesis by blast
qed

theorem createMessage_parseMessages_roundtrip_witness:
  "\<exists>bytes.
     createMessage LittleEndian
       \<lparr>magic = 0x4B41524F, protocol_version = 1, type = DRAW_POINT, layer_id = 2,
        reserved = 0, client_id = 7, sequence = 42, data_size = 3, timestamp = 1000\<rparr>
       (Some [1, 2, 3]) = Some bytes \<and>
     length bytes = 35 \<and>
     parseMessages BigEndian
       ((Client_new 5)\<lparr>m_receive_buffer := bytes, m_receive_buffer_pos := 0\<rparr>)
       = (True, (Client_new 5)\<lparr>m_parsed_messages :=
            [(\<lparr>magic = 0x4B41524F, protocol_version = 1, type = DRAW_POINT, layer_id = 2,
               reserved = 0, client_id = 7, sequence = 42, data_size = 3,
               timestamp = 1000\<rparr>, [1, 2, 3])]\<rparr>)"
  using createMessage_parseMessages_roundtrip
    [of "\<lparr>magic = 0x4B41524F, protocol_version = 1, type = DRAW_POINT, layer_id = 2,
          reserved = 0, client_id = 7, sequence = 42, data_size = 3, timestamp = 1000\<rparr>"
        "[1, 2, 3]" "Client_new 5" LittleEndian BigEndian]
  by (simp add: PROTOCOL_VERSION_def is_known_tag_def known_tags_def Client_new_def
      default_Config_def)

text \<open>
  C2. Header validation is claimed to reject every header whose type byte is not a
  known tag. The source compares the byte only with \<^verbatim>\<open>MessageType::DISCONNECT\<close>
  (0xFF), which no byte exceeds: the headers below have the unknown tags 0x03 and
  0x60 and pass validateHeader, and a session decodes the first as a message.
\<close>

theorem validateHeader_accepts_unknown_tag:
  "\<not> is_known_tag 0x03 \<and>
   validateHeader
     \<lparr>magic = 0x4B41524F, protocol_version = 1, type = 0x03, layer_id = 0,
      reserved = 0, client_id = 1, sequence = 1, data_size = 0, timestamp = 0\<rparr> \<and>
   \<not> is_known_tag 0x60 \<and>
   validateHeader
     \<lparr>magic = 0x4B41524F, protocol_version = 1, type = 0x60, layer_id = 0,
      reserved = 0, client_id = 1, sequence = 1, data_size = 0, timestamp = 0\<rparr> \<and>
   parseMessages LittleEndian
     ((Client_new 5)\<lparr>m_receive_buffer :=
        wire_header \<lparr>magic = 0x4B41524F, protocol_version = 1, type = 0x03, layer_id = 0,
          reserved = 0, client_id = 1, sequence = 1, data_size = 0, timestamp = 0\<rparr>,
        m_receive_buffer_pos := 0\<rparr>)
     = (True, (Client_new 5)\<lparr>m_parsed_messages :=
          [(\<lparr>magic = 0x4B41524F, protocol_version = 1, type = 0x03, layer_id = 0,
             reserved = 0, client_id = 1, sequence = 1, data_size = 0, timestamp = 0\<rparr>,
            [])]\<rparr>)"
proof -
  let ?h = "\<lparr>magic = 0x4B41524F, protocol_version = 1, type = 0x03, layer_id = 0,
      reserved = 0, client_id = 1, sequence = 1, data_size = 0, timestamp = 0\<rparr> :: MessageHeader"
  have k: "\<not> is_known_tag 0x03" "\<not> is_known_tag 0x60"
    by (simp_all add: is_known_tag_def known_tags_def MessageType_defs)
  have v: "validateHeader ?h"
    by (simp add: validateHeader_def PROTOCOL_VERSION_def DISCONNECT_def)
  have v': "validateHeader (?h\<lparr>type := 0x60\<rparr>)"
    by (simp add: validateHeader_def PROTOCOL_VERSION_def DISCONNECT_def)
  have "data_size ?h \<le> max_message_size (m_config (Client_new 5))"
    by (simp add: Client_new_def default_Config_def)
  from parseMessages_wire [OF v this, of "[]" LittleEndian] k v v'
  show ?thesis by (simp add: Client_new_def)
qed

section \<open>Rate limiting\<close>






section \<open>Batch merging\<close>

lemma merge_step_mset:
  assumes "i < j" "j < length xs"
  shows "\<exists>R. mset xs = add_mset (xs ! i) (add_mset (xs ! j) R) \<and>
             mset (erase_at j (xs[i := y])) = add_mset y R"
proof -
  let ?A = "take j xs" and ?C = "drop (Suc j) xs"
  have xs: "xs = ?A @ xs ! j # ?C"
    using assms(2) by (rule id_take_nth_drop)
  have lenA: "length ?A = j" using assms(2) by simp
  have Ai: "?A ! i = xs ! i" using assms(1) by simp
  have mem: "xs ! i \<in># mset ?A"
    using assms lenA Ai by (metis nth_mem_mset)
  have upd: "xs[i := y] = ?A[i := y] @ xs ! j # ?C"
    using assms(1) lenA by (subst xs) (simp add: list_update_append)
  have er: "erase_at j (xs[i := y]) = ?A[i := y] @ ?C"
    using lenA by (subst upd, simp add: erase_at_def) 
  let ?R = "(mset ?A - {#xs ! i#}) + mset ?C"
  have 1: "mset xs = add_mset (xs ! i) (add_mset (xs ! j) ?R)"
    using mem by (subst xs) (simp add: insert_DiffM)
  have 2: "mset (erase_at j (xs[i := y])) = add_mset y ?R"
    using assms(1) lenA Ai by (simp add: er mset_update)
  from 1 2 show ?thesis by blast
qed

lemma optimizeBatches_inner_invariant:
  "(\<And>R t s. canMergeBatches mx t s \<Longrightarrow> P (add_mset t (add_mset s R))
                    \<Longrightarrow> P (add_mset (merge_into t s) R))
   \<Longrightarrow> i < j \<Longrightarrow> P (mset (fst st))
   \<Longrightarrow> P (mset (fst (optimizeBatches_inner mx i j st)))"
proof (induction mx i j st rule: optimizeBatches_inner.induct)
  case (1 mx i j order merged)
  note step = 1(3) and ij = 1(4) and P = 1(5)
  show ?case
  proof (cases "j < length order")
    case False
    with P show ?thesis by (subst optimizeBatches_inner.simps) simp
  next
    case True
    show ?thesis
    proof (cases "canMergeBatches mx (order ! i) (order ! j)")
      case c: True
      obtain R where R: "mset order = add_mset (order ! i) (add_mset (order ! j) R)"
        "mset (erase_at j (order[i := merge_into (order ! i) (order ! j)]))
           = add_mset (merge_into (order ! i) (order ! j)) R"
        using merge_step_mset [OF ij True] by blast
      have "P (add_mset (merge_into (order ! i) (order ! j)) R)"
        using step [OF c] P R(1) by simp
      then have "P (mset (fst (erase_at j (order[i := merge_into (order ! i) (order ! j)]), merged + 1)))"
        using R(2) by simp
      from 1(1) [OF True c step ij this] True c show ?thesis
        by (subst optimizeBatches_inner.simps) simp
    next
      case c: False
      have "i < j + 1" using ij by simp
      from 1(2) [OF True c step this P] True c show ?thesis
        by (subst optimizeBatches_inner.simps) simp
    qed
  qed
qed

lemma optimizeBatches_outer_invariant:
  "(\<And>R t s. canMergeBatches mx t s \<Longrightarrow> P (add_mset t (add_mset s R))
                    \<Longrightarrow> P (add_mset (merge_into t s) R))
   \<Longrightarrow> P (mset (fst st)) \<Longrightarrow> P (mset (fst (optimizeBatches_outer mx i st)))"
proof (induction mx i st rule: optimizeBatches_outer.induct)
  case (1 mx i st)
  note step = 1(2) and P = 1(3)
  show ?case
  proof (cases "i < length (fst st) - 1")
    case False
    with P show ?thesis by (subst optimizeBatches_outer.simps) simp
  next
    case True
    have "i < i + 1" by simp
    from optimizeBatches_inner_invariant [of mx P i "i + 1" st, OF step this P]
    have "P (mset (fst (optimizeBatches_inner mx i (i + 1) st)))" .
    from 1(1) [OF True step this] True show ?thesis
      by (subst optimizeBatches_outer.simps) simp
  qed
qed

lemma optimizeBatches_invariant:
  assumes step: "\<And>R t s. canMergeBatches (m_max_vertices_per_batch br) t s
                    \<Longrightarrow> P (add_mset t (add_mset s R))
                    \<Longrightarrow> P (add_mset (merge_into t s) R)"
    and "P (mset (m_render_order br))"
  shows "P (mset (m_render_order (optimizeBatches br)))"
proof (cases "\<not> m_batch_merging_enabled br \<or> length (m_render_order br) < 2")
  case True
  with assms(2) show ?thesis by (simp add: optimizeBatches_def)
next
  case False
  have "P (mset (fst (optimizeBatches_outer (m_max_vertices_per_batch br) 0
               (m_render_order br, stats_batches_merged br))))"
    using optimizeBatches_outer_invariant [of "m_max_vertices_per_batch br" P
        "(m_render_order br, stats_batches_merged br)" 0] step assms(2) by simp
  with False show ?thesis by (auto simp: optimizeBatches_def split: prod.splits)
qed


lemma canMergeBatches_merge_into:
  assumes "canMergeBatches mx t s"
  shows "batch_key s = batch_key t" and "batch_key (merge_into t s) = batch_key t"
    and "vertex_count (merge_into t s) = vertex_count t + vertex_count s"
    and "vertex_count (merge_into t s) \<le> mx"
    and "length (vertices (merge_into t s)) = length (vertices t) + length (vertices s)"
  using assms by (simp_all add: canMergeBatches_def batch_key_def merge_into_def Let_def)

lemma mset_concat_sum_mset:
  "mset (concat (map f xs)) = sum_mset (image_mset (\<lambda>b. mset (f b)) (mset xs))"
  by (induction xs) simp_all

lemma merge_into_fields:
  "vertices (merge_into t s) = vertices t @ vertices s"
  "indices (merge_into t s) = indices t @
     map (\<lambda>index. word_of_nat (length (vertices t) + unat index)) (indices s)"
  "index_count (merge_into t s) = index_count t + index_count s"
  "length (indices (merge_into t s)) = length (indices t) + length (indices s)"
  by (simp_all add: merge_into_def Let_def)

lemma optimizeBatches_sum:
  assumes "\<And>t s. f (merge_into t s) = f t + (f s :: nat)"
  shows "sum_list (map f (m_render_order (optimizeBatches br)))
           = sum_list (map f (m_render_order br))"
    and "sum_list (map f (filter (\<lambda>b. batch_key b = k) (m_render_order (optimizeBatches br))))
           = sum_list (map f (filter (\<lambda>b. batch_key b = k) (m_render_order br)))"
proof -
  let ?in = "m_render_order br" and ?out = "m_render_order (optimizeBatches br)"
  have total: "sum_mset (image_mset f (mset ?out)) = sum_mset (image_mset f (mset ?in))"
    by (rule optimizeBatches_invariant
          [where P = "\<lambda>M. sum_mset (image_mset f M) = sum_mset (image_mset f (mset ?in))"])
       (simp_all add: assms)
  have per_key: "sum_mset (image_mset f (filter_mset (\<lambda>b. batch_key b = k) (mset ?out)))
                 = sum_mset (image_mset f (filter_mset (\<lambda>b. batch_key b = k) (mset ?in)))"
    by (rule optimizeBatches_invariant
          [where P = "\<lambda>M. sum_mset (image_mset f (filter_mset (\<lambda>b. batch_key b = k) M))
                          = sum_mset (image_mset f
                              (filter_mset (\<lambda>b. batch_key b = k) (mset ?in)))"])
       (auto simp: canMergeBatches_merge_into assms)
  show "sum_list (map f ?out) = sum_list (map f ?in)"
    using total by (simp add: sum_mset_sum_list [symmetric])
  show "sum_list (map f (filter (\<lambda>b. batch_key b = k) ?out))
           = sum_list (map f (filter (\<lambda>b. batch_key b = k) ?in))"
    using per_key by (simp add: sum_mset_sum_list [symmetric])
qed

lemma optimizeBatches_vertices_mset:
  "mset (concat (map vertices (filter (\<lambda>b. batch_key b = k) (m_render_order (optimizeBatches br)))))
     = mset (concat (map vertices (filter (\<lambda>b. batch_key b = k) (m_render_order br))))"
proof -
  let ?in = "m_render_order br" and ?out = "m_render_order (optimizeBatches br)"
  let ?S = "\<lambda>M. sum_mset (image_mset (\<lambda>b. mset (vertices b)) (filter_mset (\<lambda>b. batch_key b = k) M))"
  have "?S (mset ?out) = ?S (mset ?in)"
    by (rule optimizeBatches_invariant [where P = "\<lambda>M. ?S M = ?S (mset ?in)"])
       (auto simp: canMergeBatches_merge_into merge_into_fields ac_simps)
  then show ?thesis
    by (simp add: mset_concat_sum_mset flip: mset_filter)
qed

text \<open>
  C7. The batch-merge pass preserves total geometry and key homogeneity: for every
  render order, after optimizeBatches the sum of the vertex counts of the remaining
  batches equals the sum before; the same holds key by key (no geometry moves between
  keys); every batch of the result is a batch of the input or, if it was produced by a
  merge, holds at most the maximum number of vertices; and every merge the pass
  performs (canMergeBatches holds) combines two batches of equal key into a batch of
  that key whose vertex count is the sum of the two and within the capacity, whose
  vertices are those of the target followed by those of the source, and whose indices
  are those of the target followed by those of the source shifted by the number of
  vertices of the target. The same holds for the geometry itself and not only for the
  counter: the number of vertices held, the number of indices held and the index
  counter are preserved, in total and key by key, and under every key the batches of
  the result hold exactly the vertices that the batches of the input held, each as
  many times.
\<close>

theorem optimizeBatches_preserves:
  "sum_list (map vertex_count (m_render_order (optimizeBatches br)))
     = sum_list (map vertex_count (m_render_order br)) \<and>
   (\<forall>k. sum_list (map vertex_count
           (filter (\<lambda>b. batch_key b = k) (m_render_order (optimizeBatches br))))
        = sum_list (map vertex_count
           (filter (\<lambda>b. batch_key b = k) (m_render_order br)))) \<and>
   (\<forall>b \<in> set (m_render_order (optimizeBatches br)).
        b \<in> set (m_render_order br) \<or> vertex_count b \<le> m_max_vertices_per_batch br) \<and>
   (\<forall>t s. canMergeBatches (m_max_vertices_per_batch br) t s \<longrightarrow>
        batch_key s = batch_key t \<and> batch_key (merge_into t s) = batch_key t \<and>
        vertex_count (merge_into t s) = vertex_count t + vertex_count s \<and>
        vertex_count (merge_into t s) \<le> m_max_vertices_per_batch br \<and>
        vertices (merge_into t s) = vertices t @ vertices s \<and>
        indices (merge_into t s) = indices t @
          map (\<lambda>index. word_of_nat (length (vertices t) + unat index)) (indices s) \<and>
        index_count (merge_into t s) = index_count t + index_count s) \<and>
   sum_list (map (\<lambda>b. length (vertices b)) (m_render_order (optimizeBatches br)))
     = sum_list (map (\<lambda>b. length (vertices b)) (m_render_order br)) \<and>
   sum_list (map (\<lambda>b. length (indices b)) (m_render_order (optimizeBatches br)))
     = sum_list (map (\<lambda>b. length (indices b)) (m_render_order br)) \<and>
   sum_list (map index_count (m_render_order (optimizeBatches br)))
     = sum_list (map index_count (m_render_order br)) \<and>
   (\<forall>k. sum_list (map (\<lambda>b. length (vertices b))
           (filter (\<lambda>b. batch_key b = k) (m_render_order (optimizeBatches br))))
        = sum_list (map (\<lambda>b. length (vertices b))
           (filter (\<lambda>b. batch_key b = k) (m_render_order br))) \<and>
        sum_list (map (\<lambda>b. length (indices b))
           (filter (\<lambda>b. batch_key b = k) (m_render_order (optimizeBatches br))))
        = sum_list (map (\<lambda>b. length (indices b))
           (filter (\<lambda>b. batch_key b = k) (m_render_order br))) \<and>
        sum_list (map index_count
           (filter (\<lambda>b. batch_key b = k) (m_render_order (optimizeBatches br))))
        = sum_list (map index_count
           (filter (\<lambda>b. batch_key b = k) (m_render_order br))) \<and>
        mset (concat (map vertices
           (filter (\<lambda>b. batch_key b = k) (m_render_order (optimizeBatches br)))))
        = mset (concat (map vertices
           (filter (\<lambda>b. batch_key b = k) (m_render_order br)))))"
proof -
  let ?mx = "m_max_vertices_per_batch br"
  let ?in = "m_render_order br" and ?out = "m_render_order (optimizeBatches br)"
  have total: "sum_mset (image_mset vertex_count (mset ?out))
                 = sum_mset (image_mset vertex_count (mset ?in))"
    by (rule optimizeBatches_invariant
          [where P = "\<lambda>M. sum_mset (image_mset vertex_count M)
                          = sum_mset (image_mset vertex_count (mset ?in))"])
       (simp_all add: canMergeBatches_merge_into)
  have per_key: "sum_mset (image_mset vertex_count (filter_mset (\<lambda>b. batch_key b = k) (mset ?out)))
                 = sum_mset (image_mset vertex_count (filter_mset (\<lambda>b. batch_key b = k) (mset ?in)))"
    for k
    by (rule optimizeBatches_invariant
          [where P = "\<lambda>M. sum_mset (image_mset vertex_count (filter_mset (\<lambda>b. batch_key b = k) M))
                          = sum_mset (image_mset vertex_count
                              (filter_mset (\<lambda>b. batch_key b = k) (mset ?in)))"])
       (auto simp: canMergeBatches_merge_into)
  have cap: "\<forall>b \<in># mset ?out. b \<in> set ?in \<or> vertex_count b \<le> ?mx"
    by (rule optimizeBatches_invariant
          [where P = "\<lambda>M. \<forall>b \<in># M. b \<in> set ?in \<or> vertex_count b \<le> ?mx"])
       (auto simp: canMergeBatches_def merge_into_def Let_def)
  have 1: "sum_list (map vertex_count ?out) = sum_list (map vertex_count ?in)"
    using total by (simp add: sum_mset_sum_list [symmetric])
  have 2: "\<forall>k. sum_list (map vertex_count (filter (\<lambda>b. batch_key b = k) ?out))
             = sum_list (map vertex_count (filter (\<lambda>b. batch_key b = k) ?in))"
    using per_key by (simp add: sum_mset_sum_list [symmetric])
  have 3: "\<forall>b \<in> set ?out. b \<in> set ?in \<or> vertex_count b \<le> ?mx"
    using cap by simp
  have 4: "\<forall>t s. canMergeBatches ?mx t s \<longrightarrow>
        batch_key s = batch_key t \<and> batch_key (merge_into t s) = batch_key t \<and>
        vertex_count (merge_into t s) = vertex_count t + vertex_count s \<and>
        vertex_count (merge_into t s) \<le> ?mx \<and>
        vertices (merge_into t s) = vertices t @ vertices s \<and>
        indices (merge_into t s) = indices t @
          map (\<lambda>index. word_of_nat (length (vertices t) + unat index)) (indices s) \<and>
        index_count (merge_into t s) = index_count t + index_count s"
    by (simp add: canMergeBatches_def batch_key_def merge_into_def Let_def)
  have 5: "sum_list (map (\<lambda>b. length (vertices b)) ?out)
             = sum_list (map (\<lambda>b. length (vertices b)) ?in)"
    by (rule optimizeBatches_sum) (simp add: merge_into_fields)
  have 6: "sum_list (map (\<lambda>b. length (indices b)) ?out)
             = sum_list (map (\<lambda>b. length (indices b)) ?in)"
    by (rule optimizeBatches_sum) (simp add: merge_into_fields)
  have 7: "sum_list (map index_count ?out) = sum_list (map index_count ?in)"
    by (rule optimizeBatches_sum) (simp add: merge_into_fields)
  have 8: "\<forall>k. sum_list (map (\<lambda>b. length (vertices b)) (filter (\<lambda>b. batch_key b = k) ?out))
        = sum_list (map (\<lambda>b. length (vertices b)) (filter (\<lambda>b. batch_key b = k) ?in)) \<and>
        sum_list (map (\<lambda>b. length (indices b)) (filter (\<lambda>b. batch_key b = k) ?out))
        = sum_list (map (\<lambda>b. length (indices b)) (filter (\<lambda>b. batch_key b = k) ?in)) \<and>
        sum_list (map index_count (filter (\<lambda>b. batch_key b = k) ?out))
        = sum_list (map index_count (filter (\<lambda>b. batch_key b = k) ?in)) \<and>
        mset (concat (map vertices (filter (\<lambda>b. batch_key b = k) ?out)))
        = mset (concat (map vertices (filter (\<lambda>b. batch_key b = k) ?in)))"
    using optimizeBatches_sum(2) [of "\<lambda>b. length (vertices b)" _ br]
      optimizeBatches_sum(2) [of "\<lambda>b. length (indices b)" _ br]
      optimizeBatches_sum(2) [of index_count _ br]
      optimizeBatches_vertices_mset [of _ br]
    by (simp add: merge_into_fields)
  from 1 2 3 4 5 6 7 8 show ?thesis by blast
qed

theorem optimizeBatches_preserves_witness:
  "map vertex_count (m_render_order (optimizeBatches
       \<lparr>m_max_vertices_per_batch = 10000, m_batch_merging_enabled = True,
        m_render_order =
          [addQuadToBatch (new_batch (1, 0, 0, 0xFFFFFFFF))
             (map (\<lambda>x. \<lparr>vx = x, vy = 0, vu = 0, vv = 0, vcolor = 0xFFFFFFFF\<rparr>) [1, 2, 3, 4]),
           addQuadToBatch (new_batch (2, 0, 0, 0xFFFFFFFF))
             (map (\<lambda>x. \<lparr>vx = x, vy = 0, vu = 0, vv = 0, vcolor = 0xFFFFFFFF\<rparr>) [5, 6, 7, 8]),
           addQuadToBatch
             (addQuadToBatch (new_batch (1, 0, 0, 0xFFFFFFFF))
               (map (\<lambda>x. \<lparr>vx = x, vy = 0, vu = 0, vv = 0, vcolor = 0xFFFFFFFF\<rparr>) [9, 10, 11, 12]))
             (map (\<lambda>x. \<lparr>vx = x, vy = 0, vu = 0, vv = 0, vcolor = 0xFFFFFFFF\<rparr>) [13, 14, 15, 16])],
        stats_batches_merged = 0\<rparr>)) = [12, 4] \<and>
   map batch_key (m_render_order (optimizeBatches
       \<lparr>m_max_vertices_per_batch = 10000, m_batch_merging_enabled = True,
        m_render_order =
          [addQuadToBatch (new_batch (1, 0, 0, 0xFFFFFFFF))
             (map (\<lambda>x. \<lparr>vx = x, vy = 0, vu = 0, vv = 0, vcolor = 0xFFFFFFFF\<rparr>) [1, 2, 3, 4]),
           addQuadToBatch (new_batch (2, 0, 0, 0xFFFFFFFF))
             (map (\<lambda>x. \<lparr>vx = x, vy = 0, vu = 0, vv = 0, vcolor = 0xFFFFFFFF\<rparr>) [5, 6, 7, 8]),
           addQuadToBatch
             (addQuadToBatch (new_batch (1, 0, 0, 0xFFFFFFFF))
               (map (\<lambda>x. \<lparr>vx = x, vy = 0, vu = 0, vv = 0, vcolor = 0xFFFFFFFF\<rparr>) [9, 10, 11, 12]))
             (map (\<lambda>x. \<lparr>vx = x, vy = 0, vu = 0, vv = 0, vcolor = 0xFFFFFFFF\<rparr>) [13, 14, 15, 16])],
        stats_batches_merged = 0\<rparr>)) = [(1, 0, 0, 0xFFFFFFFF), (2, 0, 0, 0xFFFFFFFF)] \<and>
   sum_list (map vertex_count (m_render_order (optimizeBatches
       \<lparr>m_max_vertices_per_batch = 10000, m_batch_merging_enabled = True,
        m_render_order =
          [addQuadToBatch (new_batch (1, 0, 0, 0xFFFFFFFF))
             (map (\<lambda>x. \<lparr>vx = x, vy = 0, vu = 0, vv = 0, vcolor = 0xFFFFFFFF\<rparr>) [1, 2, 3, 4]),
           addQuadToBatch (new_batch (2, 0, 0, 0xFFFFFFFF))
             (map (\<lambda>x. \<lparr>vx = x, vy = 0, vu = 0, vv = 0, vcolor = 0xFFFFFFFF\<rparr>) [5, 6, 7, 8]),
           addQuadToBatch
             (addQuadToBatch (new_batch (1, 0, 0, 0xFFFFFFFF))
               (map (\<lambda>x. \<lparr>vx = x, vy = 0, vu = 0, vv = 0, vcolor = 0xFFFFFFFF\<rparr>) [9, 10, 11, 12]))
             (map (\<lambda>x. \<lparr>vx = x, vy = 0, vu = 0, vv = 0, vcolor = 0xFFFFFFFF\<rparr>) [13, 14, 15, 16])],
        stats_batches_merged = 0\<rparr>))) = 4 + 4 + 8 \<and>
   map (\<lambda>b. length (vertices b)) (m_render_order (optimizeBatches
       \<lparr>m_max_vertices_per_batch = 10000, m_batch_merging_enabled = True,
        m_render_order =
          [addQuadToBatch (new_batch (1, 0, 0, 0xFFFFFFFF))
             (map (\<lambda>x. \<lparr>vx = x, vy = 0, vu = 0, vv = 0, vcolor = 0xFFFFFFFF\<rparr>) [1, 2, 3, 4]),
           addQuadToBatch (new_batch (2, 0, 0, 0xFFFFFFFF))
             (map (\<lambda>x. \<lparr>vx = x, vy = 0, vu = 0, vv = 0, vcolor = 0xFFFFFFFF\<rparr>) [5, 6, 7, 8]),
           addQuadToBatch
             (addQuadToBatch (new_batch (1, 0, 0, 0xFFFFFFFF))
               (map (\<lambda>x. \<lparr>vx = x, vy = 0, vu = 0, vv = 0, vcolor = 0xFFFFFFFF\<rparr>) [9, 10, 11, 12]))
             (map (\<lambda>x. \<lparr>vx = x, vy = 0, vu = 0, vv = 0, vcolor = 0xFFFFFFFF\<rparr>) [13, 14, 15, 16])],
        stats_batches_merged = 0\<rparr>)) = [12, 4] \<and>
   map (\<lambda>b. map vx (vertices b)) (m_render_order (optimizeBatches
       \<lparr>m_max_vertices_per_batch = 10000, m_batch_merging_enabled = True,
        m_render_order =
          [addQuadToBatch (new_batch (1, 0, 0, 0xFFFFFFFF))
             (map (\<lambda>x. \<lparr>vx = x, vy = 0, vu = 0, vv = 0, vcolor = 0xFFFFFFFF\<rparr>) [1, 2, 3, 4]),
           addQuadToBatch (new_batch (2, 0, 0, 0xFFFFFFFF))
             (map (\<lambda>x. \<lparr>vx = x, vy = 0, vu = 0, vv = 0, vcolor = 0xFFFFFFFF\<rparr>) [5, 6, 7, 8]),
           addQuadToBatch
             (addQuadToBatch (new_batch (1, 0, 0, 0xFFFFFFFF))
               (map (\<lambda>x. \<lparr>vx = x, vy = 0, vu = 0, vv = 0, vcolor = 0xFFFFFFFF\<rparr>) [9, 10, 11, 12]))
             (map (\<lambda>x. \<lparr>vx = x, vy = 0, vu = 0, vv = 0, vcolor = 0xFFFFFFFF\<rparr>) [13, 14, 15, 16])],
        stats_batches_merged = 0\<rparr>)) =
     [[1, 2, 3, 4, 9, 10, 11, 12, 13, 14, 15, 16], [5, 6, 7, 8]] \<and>
   map indices (m_render_order (optimizeBatches
       \<lparr>m_max_vertices_per_batch = 10000, m_batch_merging_enabled = True,
        m_render_order =
          [addQuadToBatch (new_batch (1, 0, 0, 0xFFFFFFFF))
             (map (\<lambda>x. \<lparr>vx = x, vy = 0, vu = 0, vv = 0, vcolor = 0xFFFFFFFF\<rparr>) [1, 2, 3, 4]),
           addQuadToBatch (new_batch (2, 0, 0, 0xFFFFFFFF))
             (map (\<lambda>x. \<lparr>vx = x, vy = 0, vu = 0, vv = 0, vcolor = 0xFFFFFFFF\<rparr>) [5, 6, 7, 8]),
           addQuadToBatch
             (addQuadToBatch (new_batch (1, 0, 0, 0xFFFFFFFF))
               (map (\<lambda>x. \<lparr>vx = x, vy = 0, vu = 0, vv = 0, vcolor = 0xFFFFFFFF\<rparr>) [9, 10, 11, 12]))
             (map (\<lambda>x. \<lparr>vx = x, vy = 0, vu = 0, vv = 0, vcolor = 0xFFFFFFFF\<rparr>) [13, 14, 15, 16])],
        stats_batches_merged = 0\<rparr>)) =
     [[0, 1, 2, 0, 2, 3, 4, 5, 6, 4, 6, 7, 8, 9, 10, 8, 10, 11], [0, 1, 2, 0, 2, 3]] \<and>
   map index_count (m_render_order (optimizeBatches
       \<lparr>m_max_vertices_per_batch = 10000, m_batch_merging_enabled = True,
        m_render_order =
          [addQuadToBatch (new_batch (1, 0, 0, 0xFFFFFFFF))
             (map (\<lambda>x. \<lparr>vx = x, vy = 0, vu = 0, vv = 0, vcolor = 0xFFFFFFFF\<rparr>) [1, 2, 3, 4]),
           addQuadToBatch (new_batch (2, 0, 0, 0xFFFFFFFF))
             (map (\<lambda>x. \<lparr>vx = x, vy = 0, vu = 0, vv = 0, vcolor = 0xFFFFFFFF\<rparr>) [5, 6, 7, 8]),
           addQuadToBatch
             (addQuadToBatch (new_batch (1, 0, 0, 0xFFFFFFFF))
               (map (\<lambda>x. \<lparr>vx = x, vy = 0, vu = 0, vv = 0, vcolor = 0xFFFFFFFF\<rparr>) [9, 10, 11, 12]))
             (map (\<lambda>x. \<lparr>vx = x, vy = 0, vu = 0, vv = 0, vcolor = 0xFFFFFFFF\<rparr>) [13, 14, 15, 16])],
        stats_batches_merged = 0\<rparr>)) = [18, 6] \<and>
   stats_batches_merged (optimizeBatches
       \<lparr>m_max_vertices_per_batch = 10000, m_batch_merging_enabled = True,
        m_render_order =
          [addQuadToBatch (new_batch (1, 0, 0, 0xFFFFFFFF))
             (map (\<lambda>x. \<lparr>vx = x, vy = 0, vu = 0, vv = 0, vcolor = 0xFFFFFFFF\<rparr>) [1, 2, 3, 4]),
           addQuadToBatch (new_batch (2, 0, 0, 0xFFFFFFFF))
             (map (\<lambda>x. \<lparr>vx = x, vy = 0, vu = 0, vv = 0, vcolor = 0xFFFFFFFF\<rparr>) [5, 6, 7, 8]),
           addQuadToBatch
             (addQuadToBatch (new_batch (1, 0, 0, 0xFFFFFFFF))
               (map (\<lambda>x. \<lparr>vx = x, vy = 0, vu = 0, vv = 0, vcolor = 0xFFFFFFFF\<rparr>) [9, 10, 11, 12]))
             (map (\<lambda>x. \<lparr>vx = x, vy = 0, vu = 0, vv = 0, vcolor = 0xFFFFFFFF\<rparr>) [13, 14, 15, 16])],
        stats_batches_merged = 0\<rparr>) = 1"
  using optimizeBatches_preserves [of "\<lparr>m_max_vertices_per_batch = 10000, m_batch_merging_enabled = True,
        m_render_order =
          [addQuadToBatch (new_batch (1, 0, 0, 0xFFFFFFFF))
             (map (\<lambda>x. \<lparr>vx = x, vy = 0, vu = 0, vv = 0, vcolor = 0xFFFFFFFF\<rparr>) [1, 2, 3, 4]),
           addQuadToBatch (new_batch (2, 0, 0, 0xFFFFFFFF))
             (map (\<lambda>x. \<lparr>vx = x, vy = 0, vu = 0, vv = 0, vcolor = 0xFFFFFFFF\<rparr>) [5, 6, 7, 8]),
           addQuadToBatch
             (addQuadToBatch (new_batch (1, 0, 0, 0xFFFFFFFF))
               (map (\<lambda>x. \<lparr>vx = x, vy = 0, vu = 0, vv = 0, vcolor = 0xFFFFFFFF\<rparr>) [9, 10, 11, 12]))
             (map (\<lambda>x. \<lparr>vx = x, vy = 0, vu = 0, vv = 0, vcolor = 0xFFFFFFFF\<rparr>) [13, 14, 15, 16])],
        stats_batches_merged = 0\<rparr>"]
  by (simp add: optimizeBatches_def optimizeBatches_outer.simps optimizeBatches_inner.simps
      canMergeBatches_def merge_into_def addQuadToBatch_def new_batch_def Color_of_rgba_def
      batch_key_def erase_at_def Let_def)

section \<open>Layer 0\<close>

lemma with_lock_unlocked:
  "\<not> m_layers_mutex lm \<Longrightarrow>
   with_lock body lm =
     (case body (lm\<lparr>m_layers_mutex := True\<rparr>) of
        None \<Rightarrow> None | Some (r, lm') \<Rightarrow> Some (r, lm'\<lparr>m_layers_mutex := False\<rparr>))"
  by (simp add: with_lock_def)

lemma with_lock_locked: "m_layers_mutex lm \<Longrightarrow> with_lock body lm = None"
  by (simp add: with_lock_def)

lemma clear_never_returns: "clear now lm = None"
  by (simp add: clear_def createLayer_def with_lock_def)

lemma deleteLayer_0: "deleteLayer 0 lm = Some (False, lm)"
  by (simp add: deleteLayer_def)

lemma optimizeLayers_keeps_layer_0:
  "\<not> m_layers_mutex lm \<Longrightarrow>
   \<exists>lm'. optimizeLayers now lm = Some ((), lm') \<and> m_layers lm' 0 = m_layers lm 0 \<and>
         \<not> m_layers_mutex lm'"
  by (simp add: optimizeLayers_def with_lock_def split: option.splits)

lemma getLayer_unlocked:
  "\<not> m_layers_mutex lm \<Longrightarrow>
   getLayer lid lm = Some (if m_layers lm lid \<noteq> None then Some lid else None, lm)"
  by (simp add: getLayer_def with_lock_def)

lemma modify_layer_inv: "layer0_inv lm \<Longrightarrow> layer0_inv (modify_layer p f lm)"
  by (auto simp: layer0_inv_def modify_layer_def split: option.splits)

lemma on_layer_inv:
  "layer0_inv lm \<Longrightarrow> \<exists>r lm'. on_layer lid f lm = Some (r, lm') \<and> layer0_inv lm'"
  using modify_layer_inv [of lm lid f]
  by (auto simp: on_layer_def getLayer_unlocked layer0_inv_def)

lemma createLayer_inv:
  "layer0_inv lm \<Longrightarrow> \<exists>r lm'. createLayer now lid lm = Some (r, lm') \<and> layer0_inv lm'"
  by (auto simp: createLayer_def with_lock_def layer0_inv_def)

lemma apply_op_inv:
  assumes "op \<noteq> Clear" "layer0_inv lm"
  shows "\<exists>lm'. apply_op differs now op lm = Some lm' \<and> layer0_inv lm'"
proof (cases op)
  case (CreateLayer lid)
  then show ?thesis using createLayer_inv [OF assms(2), of now lid] by auto
next
  case (DeleteLayer lid)
  then show ?thesis using assms(2)
    by (auto simp: deleteLayer_def with_lock_def layer0_inv_def split: option.splits)
next
  case (GetOrCreateLayer lid)
  show ?thesis
  proof (cases "m_layers lm lid \<noteq> None")
    case True
    then show ?thesis using assms(2) GetOrCreateLayer
      by (auto simp: getOrCreateLayer_def with_lock_def layer0_inv_def)
  next
    case False
    obtain r lm' where c: "createLayer now lid lm = Some (r, lm')" "layer0_inv lm'"
      using createLayer_inv [OF assms(2), of now lid] by blast
    have "with_lock (\<lambda>lm. Some (m_layers lm lid \<noteq> None, lm)) lm = Some (False, lm)"
      using False assms(2) by (simp add: with_lock_def layer0_inv_def)
    then show ?thesis using c GetOrCreateLayer
      by (cases r) (auto simp: getOrCreateLayer_def with_lock_def layer0_inv_def)
  qed
next
  case (SetLayerVisibility lid v)
  then show ?thesis using on_layer_inv [OF assms(2)] by (fastforce simp: setLayerVisibility_def)
next
  case (SetLayerOpacity lid x)
  then show ?thesis using on_layer_inv [OF assms(2)] by (fastforce simp: setLayerOpacity_def)
next
  case (SetLayerBlendMode lid m)
  then show ?thesis using on_layer_inv [OF assms(2)] by (fastforce simp: setLayerBlendMode_def)
next
  case (SetLayerZOrder lid z)
  then show ?thesis using assms(2) modify_layer_inv [OF assms(2), of lid "\<lambda>l. l\<lparr>z_order := z\<rparr>"]
    by (auto simp: setLayerZOrder_def getLayer_unlocked layer0_inv_def split: option.splits)
next
  case (ClearLayer lid)
  then show ?thesis using on_layer_inv [OF assms(2)] by (fastforce simp: clearLayer_def)
next
  case ClearAllLayers
  then show ?thesis using assms(2)
    by (auto simp: clearAllLayers_def with_lock_def layer0_inv_def)
next
  case (MarkLayerDirty lid)
  then show ?thesis using on_layer_inv [OF assms(2)] by (fastforce simp: markLayerDirty_def)
next
  case (MarkLayerClean lid)
  then show ?thesis using on_layer_inv [OF assms(2)] by (fastforce simp: markLayerClean_def)
next
  case (EnableLayerCaching lid loaded)
  then show ?thesis using assms(2)
      modify_layer_inv [OF assms(2), of lid]
    by (auto simp: enableLayerCaching_def getLayer_unlocked layer0_inv_def)
next
  case (DisableLayerCaching lid)
  then show ?thesis using on_layer_inv [OF assms(2)] by (fastforce simp: disableLayerCaching_def)
next
  case (UpdateLayerStats lid objects verts)
  then show ?thesis using on_layer_inv [OF assms(2)] by (fastforce simp: updateLayerStats_def)
next
  case (GetLayersInRenderOrder iter)
  then show ?thesis using assms(2)
    by (auto simp: getLayersInRenderOrder_state_def layer0_inv_def)
next
  case OptimizeLayers
  then show ?thesis using assms(2) optimizeLayers_keeps_layer_0 [of lm now]
    by (auto simp: layer0_inv_def)
next
  case Clear
  with assms(1) show ?thesis by simp
qed

lemma apply_ops_inv:
  "\<forall>x \<in> set ops. snd x \<noteq> Clear \<Longrightarrow> layer0_inv lm \<Longrightarrow>
   \<exists>lm'. apply_ops differs ops lm = Some lm' \<and> layer0_inv lm'"
proof (induction ops arbitrary: lm)
  case Nil
  then show ?case by simp
next
  case (Cons x ops)
  obtain now op where x: "x = (now, op)" by (cases x)
  with Cons.prems have "op \<noteq> Clear" by simp
  from apply_op_inv [OF this Cons.prems(2), of differs now]
  obtain lm1 where 1: "apply_op differs now op lm = Some lm1" "layer0_inv lm1" by blast
  from Cons.IH [OF _ 1(2)] Cons.prems(1)
  obtain lm' where "apply_ops differs ops lm1 = Some lm'" "layer0_inv lm'" by auto
  with x 1 show ?case by simp
qed

lemma LayerManager_new_inv:
  "max_layers \<noteq> 0 \<Longrightarrow> \<exists>lm. LayerManager_new now max_layers = Some lm \<and> layer0_inv lm"
proof -
  assume "max_layers \<noteq> 0"
  then have "\<not> unat max_layers \<le> unat (0 :: u8)" by (simp add: unat_eq_0)
  then show ?thesis
    by (simp add: LayerManager_new_def createLayer_def with_lock_def layer0_inv_def)
qed

text \<open>
  C6 as stated fails in two places. A registry constructed with max_layers = 0 has no
  layer 0, because createLayer refuses every id that is not below max_layers. And
  clear() never re-establishes layer 0: it calls createLayer(0) while it still holds
  m_layers_mutex, which createLayer locks again, so the call does not return (after
  the container has been emptied).
\<close>

theorem layer0_counterexample:
  "map_option (\<lambda>lm. m_layers lm 0) (LayerManager_new 0 0) = Some None \<and>
   map_option (\<lambda>lm. m_layers lm 0) (LayerManager_new 0 255) = Some (Some (new_layer 0 0)) \<and>
   Option.bind (LayerManager_new 0 255) (clear 1) = None"
  by (simp add: LayerManager_new_def createLayer_def with_lock_def clear_never_returns)

text \<open>
  C6, amended. For a registry constructed with max_layers of at least 1, layer 0
  exists after construction and after every sequence of registry operations other
  than clear(), all of which return; deleteLayer(0) returns false and changes
  nothing; and optimizeLayers leaves layer 0 as it is.
\<close>

theorem layer0_durable:
  assumes "max_layers \<noteq> 0" and "\<forall>x \<in> set ops. snd x \<noteq> Clear"
  shows "(\<exists>lm0 lm. LayerManager_new t0 max_layers = Some lm0 \<and> m_layers lm0 0 \<noteq> None \<and>
            apply_ops differs ops lm0 = Some lm \<and> m_layers lm 0 \<noteq> None) \<and>
         (\<forall>lm. deleteLayer 0 lm = Some (False, lm)) \<and>
         (\<forall>now lm. \<not> m_layers_mutex lm \<longrightarrow>
            (\<exists>lm'. optimizeLayers now lm = Some ((), lm') \<and> m_layers lm' 0 = m_layers lm 0))"
proof -
  obtain lm0 where 0: "LayerManager_new t0 max_layers = Some lm0" "layer0_inv lm0"
    using LayerManager_new_inv [OF assms(1)] by blast
  obtain lm where 1: "apply_ops differs ops lm0 = Some lm" "layer0_inv lm"
    using apply_ops_inv [OF assms(2) 0(2), of differs] by blast
  have a: "\<exists>lm0 lm. LayerManager_new t0 max_layers = Some lm0 \<and> m_layers lm0 0 \<noteq> None \<and>
            apply_ops differs ops lm0 = Some lm \<and> m_layers lm 0 \<noteq> None"
    using 0 1 by (auto simp: layer0_inv_def)
  have b: "\<forall>lm. deleteLayer 0 lm = Some (False, lm)"
    by (simp add: deleteLayer_0)
  have c: "\<forall>now lm. \<not> m_layers_mutex lm \<longrightarrow>
            (\<exists>lm'. optimizeLayers now lm = Some ((), lm') \<and> m_layers lm' 0 = m_layers lm 0)"
    using optimizeLayers_keeps_layer_0 by blast
  from a b c show ?thesis by blast
qed

theorem layer0_durable_witness:
  "\<exists>lm0 lm. LayerManager_new 0 255 = Some lm0 \<and> m_layers lm0 0 \<noteq> None \<and>
     apply_ops differs_exact
       [(1, CreateLayer 3), (2, DeleteLayer 0), (3, SetLayerVisibility 0 False),
        (4, DeleteLayer 3), (5, ClearAllLayers),
        (1000000000000, OptimizeLayers), (1000000000001, GetOrCreateLayer 7)] lm0
       = Some lm \<and> m_layers lm 0 \<noteq> None"
  using layer0_durable [of 255
      "[(1, CreateLayer 3), (2, DeleteLayer 0), (3, SetLayerVisibility 0 False),
        (4, DeleteLayer 3), (5, ClearAllLayers),
        (1000000000000, OptimizeLayers), (1000000000001, GetOrCreateLayer 7)]" 0 differs_exact]
  by simp

section \<open>Render order\<close>

lemma std_sort_result_exists:
  "std_sort_result (\<lambda>a b. f a < f b) xs (sort_key f xs)" for f :: "'a \<Rightarrow> 'b::linorder"
  by (simp add: std_sort_result_def sorted_wrt_map [symmetric] not_less
      flip: sorted_wrt_map)

lemma set_visible_layers:
  "iteration_of iter lm \<Longrightarrow> set (visible_layers iter lm) = {p. is_visible lm p}"
  by (auto simp: iteration_of_def visible_layers_def is_visible_def split: option.splits)

lemma distinct_visible_layers:
  "iteration_of iter lm \<Longrightarrow> distinct (visible_layers iter lm)"
  by (simp add: iteration_of_def visible_layers_def)

lemma sorted_wrt_short: "length xs \<le> 1 \<Longrightarrow> sorted_wrt P xs"
  by (cases xs) (auto)

text \<open>
  C8 as stated fails: the comparison handed to std::sort looks at z_order only and
  the sort is not stable, so two layers of equal z-order may come out in either
  order. The registry below is reached by creating layers 1 and 2 and setting both
  z-orders to 5; the result [0, 2, 1] is one that the call may return, whether the
  container is iterated in ascending order of the ids or, as a hash table may do, in
  the order 2, 1, 0; in the second case it is also what a stable sort by z-order
  gives. In it layer 2 precedes layer 1.
\<close>

theorem getLayersInRenderOrder_tiebreak_counterexample:
  "Option.bind (LayerManager_new 0 255)
     (apply_ops differs_exact
        [(0, CreateLayer 1), (0, CreateLayer 2),
         (0, SetLayerZOrder 1 (Fin 5)), (0, SetLayerZOrder 2 (Fin 5))])
     = Some \<lparr>m_max_layers = 255,
        m_layers = [0 \<mapsto> new_layer 0 0, 1 \<mapsto> (new_layer 0 1)\<lparr>z_order := Fin 5\<rparr>,
                    2 \<mapsto> (new_layer 0 2)\<lparr>z_order := Fin 5\<rparr>],
        m_needs_sort = True, m_layers_mutex = False\<rparr> \<and>
   getLayersInRenderOrder [0, 1, 2]
     \<lparr>m_max_layers = 255,
        m_layers = [0 \<mapsto> new_layer 0 0, 1 \<mapsto> (new_layer 0 1)\<lparr>z_order := Fin 5\<rparr>,
                    2 \<mapsto> (new_layer 0 2)\<lparr>z_order := Fin 5\<rparr>],
        m_needs_sort = True, m_layers_mutex = False\<rparr>
     ([0, 2, 1], \<lparr>m_max_layers = 255,
        m_layers = [0 \<mapsto> new_layer 0 0, 1 \<mapsto> (new_layer 0 1)\<lparr>z_order := Fin 5\<rparr>,
                    2 \<mapsto> (new_layer 0 2)\<lparr>z_order := Fin 5\<rparr>],
        m_needs_sort = True, m_layers_mutex = False\<rparr>\<lparr>m_needs_sort := False\<rparr>) \<and>
   getLayersInRenderOrder [2, 1, 0]
     \<lparr>m_max_layers = 255,
        m_layers = [0 \<mapsto> new_layer 0 0, 1 \<mapsto> (new_layer 0 1)\<lparr>z_order := Fin 5\<rparr>,
                    2 \<mapsto> (new_layer 0 2)\<lparr>z_order := Fin 5\<rparr>],
        m_needs_sort = True, m_layers_mutex = False\<rparr>
     ([0, 2, 1], \<lparr>m_max_layers = 255,
        m_layers = [0 \<mapsto> new_layer 0 0, 1 \<mapsto> (new_layer 0 1)\<lparr>z_order := Fin 5\<rparr>,
                    2 \<mapsto> (new_layer 0 2)\<lparr>z_order := Fin 5\<rparr>],
        m_needs_sort = True, m_layers_mutex = False\<rparr>\<lparr>m_needs_sort := False\<rparr>) \<and>
   sort_key (layer_z \<lparr>m_max_layers = 255,
        m_layers = [0 \<mapsto> new_layer 0 0, 1 \<mapsto> (new_layer 0 1)\<lparr>z_order := Fin 5\<rparr>,
                    2 \<mapsto> (new_layer 0 2)\<lparr>z_order := Fin 5\<rparr>],
        m_needs_sort = True, m_layers_mutex = False\<rparr>)
     (visible_layers [2, 1, 0] \<lparr>m_max_layers = 255,
        m_layers = [0 \<mapsto> new_layer 0 0, 1 \<mapsto> (new_layer 0 1)\<lparr>z_order := Fin 5\<rparr>,
                    2 \<mapsto> (new_layer 0 2)\<lparr>z_order := Fin 5\<rparr>],
        m_needs_sort = True, m_layers_mutex = False\<rparr>) = [0, 2, 1] \<and>
   \<not> id_tiebreak \<lparr>m_max_layers = 255,
        m_layers = [0 \<mapsto> new_layer 0 0, 1 \<mapsto> (new_layer 0 1)\<lparr>z_order := Fin 5\<rparr>,
                    2 \<mapsto> (new_layer 0 2)\<lparr>z_order := Fin 5\<rparr>],
        m_needs_sort = True, m_layers_mutex = False\<rparr> [0, 2, 1]"
  by (simp add: LayerManager_new_def createLayer_def with_lock_def setLayerZOrder_def
      getLayer_def modify_layer_def new_layer_def getLayersInRenderOrder_def
      visible_layers_def is_visible_def std_sort_result_def layer_z_def id_tiebreak_def
      threshold_def less_fval_def Let_def)

text \<open>
  C8, amended. For every registry state, getLayersInRenderOrder returns, and every
  vector it may return contains exactly the visible layers, each once, sorted
  ascending by z-order: a layer with smaller z-order precedes every layer with larger
  z-order. The relative order of layers with equal z-order is not determined. The
  layers themselves are unchanged.
\<close>

theorem getLayersInRenderOrder_sorted_by_z:
  assumes "iteration_of iter lm" and "\<not> m_layers_mutex lm"
  shows "(\<exists>res. getLayersInRenderOrder iter lm res) \<and>
         (\<forall>layers' lm'. getLayersInRenderOrder iter lm (layers', lm') \<longrightarrow>
            set layers' = {p. is_visible lm p} \<and> distinct layers' \<and>
            sorted_wrt (\<lambda>a b. layer_z lm a \<le> layer_z lm b) layers' \<and>
            m_layers lm' = m_layers lm)"
proof -
  let ?layers = "visible_layers iter lm"
  let ?sort = "m_needs_sort lm \<or> length ?layers > 1"
  have ex: "\<exists>res. getLayersInRenderOrder iter lm res"
  proof (cases ?sort)
    case True
    have "getLayersInRenderOrder iter lm (sort_key (layer_z lm) ?layers, lm\<lparr>m_needs_sort := False\<rparr>)"
      using True assms(2) std_sort_result_exists [of "layer_z lm" ?layers]
      by (simp add: getLayersInRenderOrder_def Let_def)
    then show ?thesis by blast
  next
    case False
    have "getLayersInRenderOrder iter lm (?layers, lm)"
      using False assms(2) by (simp add: getLayersInRenderOrder_def Let_def)
    then show ?thesis by blast
  qed
  have all: "set layers' = {p. is_visible lm p} \<and> distinct layers' \<and>
            sorted_wrt (\<lambda>a b. layer_z lm a \<le> layer_z lm b) layers' \<and>
            m_layers lm' = m_layers lm"
    if r: "getLayersInRenderOrder iter lm (layers', lm')" for layers' lm'
  proof (cases ?sort)
    case True
    with r have s: "std_sort_result (\<lambda>a b. layer_z lm a < layer_z lm b) ?layers layers'"
      and lm': "lm' = lm\<lparr>m_needs_sort := False\<rparr>"
      by (simp_all add: getLayersInRenderOrder_def Let_def)
    from s have m: "mset layers' = mset ?layers"
      and o: "sorted_wrt (\<lambda>a b. \<not> layer_z lm b < layer_z lm a) layers'"
      by (simp_all add: std_sort_result_def)
    have "set layers' = set ?layers" using m by (rule mset_eq_setD)
    moreover have "distinct layers'"
      using m distinct_visible_layers [OF assms(1)] by (metis mset_eq_imp_distinct_iff)
    moreover have "sorted_wrt (\<lambda>a b. layer_z lm a \<le> layer_z lm b) layers'"
      using o by (simp add: not_less)
    ultimately show ?thesis using lm' set_visible_layers [OF assms(1)] by simp
  next
    case False
    with r have eq: "layers' = ?layers" "lm' = lm"
      by (simp_all add: getLayersInRenderOrder_def Let_def)
    have "length ?layers \<le> 1" using False by simp
    then have "sorted_wrt (\<lambda>a b. layer_z lm a \<le> layer_z lm b) ?layers"
      by (rule sorted_wrt_short)
    then show ?thesis
      using eq set_visible_layers [OF assms(1)] distinct_visible_layers [OF assms(1)] by simp
  qed
  from ex all show ?thesis by blast
qed

theorem getLayersInRenderOrder_sorted_by_z_witness:
  "iteration_of [0, 1, 2] \<lparr>m_max_layers = 255,
        m_layers = [0 \<mapsto> new_layer 0 0, 1 \<mapsto> (new_layer 0 1)\<lparr>z_order := Fin 5\<rparr>,
                    2 \<mapsto> (new_layer 0 2)\<lparr>z_order := Fin 5\<rparr>],
        m_needs_sort = True, m_layers_mutex = False\<rparr> \<and>
   set [0, 2, 1] = {p. is_visible \<lparr>m_max_layers = 255,
        m_layers = [0 \<mapsto> new_layer 0 0, 1 \<mapsto> (new_layer 0 1)\<lparr>z_order := Fin 5\<rparr>,
                    2 \<mapsto> (new_layer 0 2)\<lparr>z_order := Fin 5\<rparr>],
        m_needs_sort = True, m_layers_mutex = False\<rparr> p} \<and>
   distinct [0 :: u8, 2, 1] \<and>
   sorted_wrt (\<lambda>a b. layer_z \<lparr>m_max_layers = 255,
        m_layers = [0 \<mapsto> new_layer 0 0, 1 \<mapsto> (new_layer 0 1)\<lparr>z_order := Fin 5\<rparr>,
                    2 \<mapsto> (new_layer 0 2)\<lparr>z_order := Fin 5\<rparr>],
        m_needs_sort = True, m_layers_mutex = False\<rparr> a \<le> layer_z \<lparr>m_max_layers = 255,
        m_layers = [0 \<mapsto> new_layer 0 0, 1 \<mapsto> (new_layer 0 1)\<lparr>z_order := Fin 5\<rparr>,
                    2 \<mapsto> (new_layer 0 2)\<lparr>z_order := Fin 5\<rparr>],
        m_needs_sort = True, m_layers_mutex = False\<rparr> b) [0, 2, 1]"
proof -
  let ?lm = "\<lparr>m_max_layers = 255,
        m_layers = [0 \<mapsto> new_layer 0 0, 1 \<mapsto> (new_layer 0 1)\<lparr>z_order := Fin 5\<rparr>,
                    2 \<mapsto> (new_layer 0 2)\<lparr>z_order := Fin 5\<rparr>],
        m_needs_sort = True, m_layers_mutex = False\<rparr>"
  have i: "iteration_of [0, 1, 2] ?lm"
    by (auto simp: iteration_of_def)
  have m: "\<not> m_layers_mutex ?lm" by simp
  have r: "getLayersInRenderOrder [0, 1, 2] ?lm ([0, 2, 1], ?lm\<lparr>m_needs_sort := False\<rparr>)"
    by (simp add: getLayersInRenderOrder_def visible_layers_def is_visible_def
        std_sort_result_def layer_z_def new_layer_def less_fval_def Let_def)
  from getLayersInRenderOrder_sorted_by_z [OF i m] r i show ?thesis by blast
qed

section \<open>Command construction\<close>

lemma read_bytes_beyond:
  "length payload \<le> off \<Longrightarrow>
   read_bytes (memory_at payload (\<lambda>i. c)) off n = replicate n c"
  by (auto simp: read_bytes_def memory_at_def list_eq_iff_nth_eq)

lemma read_bytes_within:
  "off + n \<le> length payload \<Longrightarrow>
   read_bytes (memory_at payload beyond) off n = bytes_at off n payload"
  by (auto simp: read_bytes_def memory_at_def bytes_at_def list_eq_iff_nth_eq)

lemma fromNetworkMessage_DRAW_TEXT:
  "type header = DRAW_TEXT \<Longrightarrow>
   cmd_type (fromNetworkMessage e header mem) = RC_DRAW_TEXT \<and>
   text_string (fromNetworkMessage e header mem)
     = read_bytes mem sizeof_DrawTextData (unat (read_u16 e mem 20))"
  by (simp add: fromNetworkMessage_def MessageType_defs fromDrawTextData_def
      RenderCommand_new_def Let_def)

lemma fromNetworkMessage_DRAW_TEXTURED_QUADS:
  "type header = DRAW_TEXTURED_QUADS \<Longrightarrow>
   cmd_type (fromNetworkMessage e header mem) = RC_DRAW_TEXTURED_QUADS \<and>
   length (cmd_vertices (fromNetworkMessage e header mem)) = unat (read_u32 e mem 8 * 4)"
  by (simp add: fromNetworkMessage_def MessageType_defs fromDrawTexturedQuadsData_def
      RenderCommand_new_def Let_def)

text \<open>
  C5. Command construction is claimed to reject a DRAW_TEXT message whose text_length
  does not fit in data_size minus the 24-byte prefix, and a DRAW_TEXTURED_QUADS message
  whose quad_count * 4 vertices do not fit behind the 16-byte prefix. fromNetworkMessage
  has no such check. The first message below is validated, carries a 24-byte payload
  and declares 100 bytes of text: the converter returns a DRAW_TEXT command whose text
  is the 100 bytes found in memory behind the payload (here 0x41), while the helper
  parseDrawTextMessage rejects the same message. The second declares two quads behind
  a 16-byte payload and yields a DRAW_TEXTURED_QUADS command of eight vertices.
\<close>

theorem fromNetworkMessage_no_size_check:
  "validateHeader
     \<lparr>magic = 0x4B41524F, protocol_version = 1, type = DRAW_TEXT, layer_id = 1,
       reserved = 0, client_id = 1, sequence = 1, data_size = 24, timestamp = 0\<rparr> \<and>
   length (replicate 20 0 @ [100, 0, 0, 0]) = unat (data_size
     \<lparr>magic = 0x4B41524F, protocol_version = 1, type = DRAW_TEXT, layer_id = 1,
       reserved = 0, client_id = 1, sequence = 1, data_size = 24, timestamp = 0\<rparr>) \<and>
   cmd_type (fromNetworkMessage LittleEndian
     \<lparr>magic = 0x4B41524F, protocol_version = 1, type = DRAW_TEXT, layer_id = 1,
       reserved = 0, client_id = 1, sequence = 1, data_size = 24, timestamp = 0\<rparr>
     (memory_at (replicate 20 0 @ [100, 0, 0, 0]) (\<lambda>i. 0x41))) = RC_DRAW_TEXT \<and>
   text_string (fromNetworkMessage LittleEndian
     \<lparr>magic = 0x4B41524F, protocol_version = 1, type = DRAW_TEXT, layer_id = 1,
       reserved = 0, client_id = 1, sequence = 1, data_size = 24, timestamp = 0\<rparr>
     (memory_at (replicate 20 0 @ [100, 0, 0, 0]) (\<lambda>i. 0x41))) = replicate 100 0x41 \<and>
   parseDrawTextMessage LittleEndian
     (wire_header
        \<lparr>magic = 0x4B41524F, protocol_version = 1, type = DRAW_TEXT, layer_id = 1,
       reserved = 0, client_id = 1, sequence = 1, data_size = 24, timestamp = 0\<rparr>
      @ (replicate 20 0 @ [100, 0, 0, 0])) = Rejected \<and>
   validateHeader
     \<lparr>magic = 0x4B41524F, protocol_version = 1, type = DRAW_TEXTURED_QUADS, layer_id = 1,
       reserved = 0, client_id = 1, sequence = 2, data_size = 16, timestamp = 0\<rparr> \<and>
   length (replicate 8 0 @ [2, 0, 0, 0, 0, 0, 0, 0]) = unat (data_size
     \<lparr>magic = 0x4B41524F, protocol_version = 1, type = DRAW_TEXTURED_QUADS, layer_id = 1,
       reserved = 0, client_id = 1, sequence = 2, data_size = 16, timestamp = 0\<rparr>) \<and>
   cmd_type (fromNetworkMessage LittleEndian
     \<lparr>magic = 0x4B41524F, protocol_version = 1, type = DRAW_TEXTURED_QUADS, layer_id = 1,
       reserved = 0, client_id = 1, sequence = 2, data_size = 16, timestamp = 0\<rparr>
     (memory_at (replicate 8 0 @ [2, 0, 0, 0, 0, 0, 0, 0]) (\<lambda>i. 0))) = RC_DRAW_TEXTURED_QUADS \<and>
   length (cmd_vertices (fromNetworkMessage LittleEndian
     \<lparr>magic = 0x4B41524F, protocol_version = 1, type = DRAW_TEXTURED_QUADS, layer_id = 1,
       reserved = 0, client_id = 1, sequence = 2, data_size = 16, timestamp = 0\<rparr>
     (memory_at (replicate 8 0 @ [2, 0, 0, 0, 0, 0, 0, 0]) (\<lambda>i. 0)))) = 8"
proof -
  let ?h = "\<lparr>magic = 0x4B41524F, protocol_version = 1, type = DRAW_TEXT, layer_id = 1,
       reserved = 0, client_id = 1, sequence = 1, data_size = 24, timestamp = 0\<rparr>"
  let ?p = "(replicate 20 0 @ [100, 0, 0, 0]) :: u8 list"
  let ?hq = "\<lparr>magic = 0x4B41524F, protocol_version = 1, type = DRAW_TEXTURED_QUADS, layer_id = 1,
       reserved = 0, client_id = 1, sequence = 2, data_size = 16, timestamp = 0\<rparr>"
  let ?pq = "(replicate 8 0 @ [2, 0, 0, 0, 0, 0, 0, 0]) :: u8 list"
  have v: "validateHeader ?h"
    by (simp add: validateHeader_def PROTOCOL_VERSION_def MessageType_defs)
  have vq: "validateHeader ?hq"
    by (simp add: validateHeader_def PROTOCOL_VERSION_def MessageType_defs)
  have len: "read_u16 LittleEndian (memory_at ?p (\<lambda>i. 0x41)) 20 = 100"
    by (simp add: read_u16_def read_bytes_within bytes_at_def load_def)
  have t: "cmd_type (fromNetworkMessage LittleEndian ?h (memory_at ?p (\<lambda>i. 0x41)))
             = RC_DRAW_TEXT"
    "text_string (fromNetworkMessage LittleEndian ?h (memory_at ?p (\<lambda>i. 0x41)))
             = replicate 100 0x41"
    using fromNetworkMessage_DRAW_TEXT [of ?h LittleEndian "memory_at ?p (\<lambda>i. 0x41)"]
    by (simp_all add: len sizeof_DrawTextData_def read_bytes_beyond)
  have hdr: "networkToHost LittleEndian (header_from_bytes LittleEndian
             (bytes_at 0 32 (wire_header ?h @ ?p))) = ?h"
    by (simp add: bytes_at_def networkToHost_header_from_bytes)
  have l: "read_u16 LittleEndian (memory_at (drop 32 (wire_header ?h @ ?p)) (\<lambda>i. 0)) 20 = 100"
    by (simp add: read_u16_def read_bytes_within bytes_at_def load_def)
  have rej: "parseDrawTextMessage LittleEndian (wire_header ?h @ ?p) = Rejected"
    unfolding parseDrawTextMessage_def Let_def hdr l
    using v by (simp add: sizeof_DrawTextData_def)
  have cnt: "read_u32 LittleEndian (memory_at ?pq (\<lambda>i. 0)) 8 = 2"
    by (simp add: read_u32_def read_bytes_within bytes_at_def load_def)
  have q: "cmd_type (fromNetworkMessage LittleEndian ?hq (memory_at ?pq (\<lambda>i. 0)))
             = RC_DRAW_TEXTURED_QUADS"
    "length (cmd_vertices (fromNetworkMessage LittleEndian ?hq (memory_at ?pq (\<lambda>i. 0)))) = 8"
    using fromNetworkMessage_DRAW_TEXTURED_QUADS [of ?hq LittleEndian "memory_at ?pq (\<lambda>i. 0)"]
    by (simp_all add: cnt)
  from v vq t rej q show ?thesis by simp
qed

section \<open>Priority queue\<close>

lemma take_first_None: "take_first p cs = None \<longleftrightarrow> (\<forall>c \<in> set cs. priority c \<noteq> p)"
  by (induction cs) (auto split: option.splits)

lemma take_first_Some:
  "take_first p cs = Some (x, rest) \<Longrightarrow>
   \<exists>pre post. cs = pre @ x # post \<and> rest = pre @ post \<and> priority x = p \<and>
              (\<forall>c \<in> set pre. priority c \<noteq> p)"
proof (induction cs arbitrary: rest)
  case Nil
  then show ?case by simp
next
  case (Cons c cs)
  show ?case
  proof (cases "priority c = p")
    case True
    with Cons.prems have "x = c" "rest = cs" by simp_all
    with True show ?thesis by (intro exI [of _ "[]"] exI [of _ cs]) simp
  next
    case False
    with Cons.prems obtain r where r: "take_first p cs = Some (x, r)" "rest = c # r"
      by (auto split: option.splits)
    from Cons.IH [OF r(1)] obtain pre post where
      "cs = pre @ x # post" "r = pre @ post" "priority x = p" "\<forall>c \<in> set pre. priority c \<noteq> p"
      by blast
    with False r(2) show ?thesis
      by (intro exI [of _ "c # pre"] exI [of _ post]) simp
  qed
qed

lemma take_first_filter:
  "take_first p cs = Some (x, rest) \<Longrightarrow>
   filter (\<lambda>c. priority c = p) cs = x # filter (\<lambda>c. priority c = p) rest \<and>
   (\<forall>p'. p' \<noteq> p \<longrightarrow> filter (\<lambda>c. priority c = p') rest = filter (\<lambda>c. priority c = p') cs)"
proof -
  assume "take_first p cs = Some (x, rest)"
  from take_first_Some [OF this] obtain pre post where
    d: "cs = pre @ x # post" "rest = pre @ post" "priority x = p"
       "\<forall>c \<in> set pre. priority c \<noteq> p"
    by blast
  have "filter (\<lambda>c. priority c = p) pre = []" using d(4) by (simp add: filter_empty_conv)
  with d show ?thesis by auto
qed

lemma priority_cases: "p = CRITICAL \<or> p = HIGH \<or> p = NORMAL \<or> p = LOW"
  by (cases p) auto

lemma filter_none: "\<forall>c \<in> set cs. priority c \<noteq> p \<Longrightarrow> filter (\<lambda>c. priority c = p) cs = []"
  by (simp add: filter_empty_conv)

lemma take_head_None: "take_head cs = None \<longleftrightarrow> cs = []"
proof
  assume "take_head cs = None"
  then have "\<forall>p. \<forall>c \<in> set cs. priority c \<noteq> p"
    using priority_cases
    by (auto simp: take_head_def take_first_None split: option.splits) (metis)+
  then show "cs = []" by (cases cs) auto
next
  assume "cs = []" then show "take_head cs = None" by (simp add: take_head_def)
qed

lemma take_first_head:
  assumes t: "take_first p cs = Some (x, rest)"
    and top: "\<forall>c \<in> set cs. priority_rank (priority c) \<le> priority_rank p"
  shows "\<exists>pre post. cs = pre @ x # post \<and> rest = pre @ post \<and>
           (\<forall>c \<in> set pre. priority_rank (priority c) < priority_rank (priority x)) \<and>
           (\<forall>c \<in> set post. priority_rank (priority c) \<le> priority_rank (priority x))"
proof -
  from take_first_Some [OF t] obtain pre post where
    d: "cs = pre @ x # post" "rest = pre @ post" "priority x = p"
       "\<forall>c \<in> set pre. priority c \<noteq> p"
    by blast
  have inj: "priority_rank a = priority_rank b \<Longrightarrow> a = b" for a b
    by (cases a; cases b) simp_all
  have "\<forall>c \<in> set pre. priority_rank (priority c) < priority_rank (priority x)"
  proof
    fix c assume c: "c \<in> set pre"
    then have "priority_rank (priority c) \<le> priority_rank p" using top d(1) by simp
    moreover have "priority_rank (priority c) \<noteq> priority_rank p" using d(4) c inj by blast
    ultimately show "priority_rank (priority c) < priority_rank (priority x)" using d(3) by simp
  qed
  moreover have "\<forall>c \<in> set post. priority_rank (priority c) \<le> priority_rank (priority x)"
    using top d(1,3) by simp
  ultimately show ?thesis using d(1,2) by blast
qed

lemma rank_bound:
  "priority c \<noteq> CRITICAL \<Longrightarrow> priority_rank (priority c) \<le> priority_rank HIGH"
  "priority c \<noteq> CRITICAL \<Longrightarrow> priority c \<noteq> HIGH \<Longrightarrow>
     priority_rank (priority c) \<le> priority_rank NORMAL"
  "priority c \<noteq> CRITICAL \<Longrightarrow> priority c \<noteq> HIGH \<Longrightarrow> priority c \<noteq> NORMAL \<Longrightarrow>
     priority_rank (priority c) \<le> priority_rank LOW"
  "priority_rank (priority c) \<le> priority_rank CRITICAL"
  by (cases "priority c"; simp)+

lemma take_head_Some:
  assumes "take_head cs = Some (x, rest)"
  shows "priority_then_fifo cs = x # priority_then_fifo rest \<and>
         (\<exists>pre post. cs = pre @ x # post \<and> rest = pre @ post \<and>
           (\<forall>c \<in> set pre. priority_rank (priority c) < priority_rank (priority x)) \<and>
           (\<forall>c \<in> set post. priority_rank (priority c) \<le> priority_rank (priority x)))"
proof (cases "take_first CRITICAL cs")
  case (Some r)
  with assms have t: "take_first CRITICAL cs = Some (x, rest)" by (simp add: take_head_def)
  from take_first_filter [OF t] have "priority_then_fifo cs = x # priority_then_fifo rest"
    by (simp add: priority_then_fifo_def)
  moreover note take_first_head [OF t]
  ultimately show ?thesis using rank_bound(4) by blast
next
  case nc: None
  then have c0: "\<forall>c \<in> set cs. priority c \<noteq> CRITICAL" by (simp add: take_first_None)
  show ?thesis
  proof (cases "take_first HIGH cs")
    case (Some r)
    with assms nc have t: "take_first HIGH cs = Some (x, rest)" by (simp add: take_head_def)
    from take_first_filter [OF t] filter_none [OF c0]
    have "priority_then_fifo cs = x # priority_then_fifo rest"
      by (simp add: priority_then_fifo_def)
    moreover have "\<forall>c \<in> set cs. priority_rank (priority c) \<le> priority_rank HIGH"
      using c0 rank_bound(1) by blast
    note take_first_head [OF t this]
    ultimately show ?thesis by blast
  next
    case nh: None
    then have c1: "\<forall>c \<in> set cs. priority c \<noteq> HIGH" by (simp add: take_first_None)
    show ?thesis
    proof (cases "take_first NORMAL cs")
      case (Some r)
      with assms nc nh have t: "take_first NORMAL cs = Some (x, rest)"
        by (simp add: take_head_def)
      from take_first_filter [OF t] filter_none [OF c0] filter_none [OF c1]
      have "priority_then_fifo cs = x # priority_then_fifo rest"
        by (simp add: priority_then_fifo_def)
      moreover have "\<forall>c \<in> set cs. priority_rank (priority c) \<le> priority_rank NORMAL"
        using c0 c1 rank_bound(2) by blast
      note take_first_head [OF t this]
      ultimately show ?thesis by blast
    next
      case nn: None
      then have c2: "\<forall>c \<in> set cs. priority c \<noteq> NORMAL" by (simp add: take_first_None)
      from assms nc nh nn have t: "take_first LOW cs = Some (x, rest)"
        by (simp add: take_head_def)
      from take_first_filter [OF t] filter_none [OF c0] filter_none [OF c1] filter_none [OF c2]
      have "priority_then_fifo cs = x # priority_then_fifo rest"
        by (simp add: priority_then_fifo_def)
      moreover have "\<forall>c \<in> set cs. priority_rank (priority c) \<le> priority_rank LOW"
        using c0 c1 c2 rank_bound(3) by blast
      note take_first_head [OF t this]
      ultimately show ?thesis by blast
    qed
  qed
qed

lemma priority_then_fifo_Nil [simp]: "priority_then_fifo [] = []"
  by (simp add: priority_then_fifo_def)

lemma dequeueBatch_order:
  "fst (dequeueBatch n q) = take n (priority_then_fifo (m_commands q)) \<and>
   priority_then_fifo (m_commands (snd (dequeueBatch n q)))
     = drop n (priority_then_fifo (m_commands q))"
proof (induction n arbitrary: q)
  case 0
  show ?case by simp
next
  case (Suc n)
  show ?case
  proof (cases "take_head (m_commands q)")
    case None
    then have "m_commands q = []" by (simp add: take_head_None)
    with None show ?thesis by (simp add: dequeue_def)
  next
    case (Some r)
    obtain x rest where r: "r = (x, rest)" by (cases r)
    let ?q' = "q\<lparr>m_commands := rest, total_dequeued := total_dequeued q + 1\<rparr>"
    have d: "dequeue q = (Some x, ?q')" using Some r by (simp add: dequeue_def)
    have o: "priority_then_fifo (m_commands q) = x # priority_then_fifo rest"
      using take_head_Some [of "m_commands q" x rest] Some r by simp
    from Suc.IH [of ?q'] d o show ?thesis
      by (auto split: prod.splits)
  qed
qed

text \<open>
  C3. The consumer of the bounded render-command queue sees strict priority across
  classes (Critical > High > Normal > Low) and FIFO order within a class. A batch of
  up to n commands is the first n resident commands in priority-then-insertion order.
  Every single dequeue removes a command such that all resident commands enqueued
  before it have strictly lower priority and all those enqueued after it have at most
  its priority; so of two resident commands the one of higher priority, or the older
  one of equal priority, is always dequeued first, whatever the order of enqueueing
  and however enqueues and dequeues interleave. An accepted enqueue appends the
  command behind the resident ones and a dropped one leaves them unchanged.
\<close>

theorem queue_priority_then_fifo:
  "fst (dequeueBatch n q) = take n (priority_then_fifo (m_commands q)) \<and>
   (\<forall>x q'. dequeue q = (Some x, q') \<longrightarrow>
      (\<exists>pre post. m_commands q = pre @ x # post \<and> m_commands q' = pre @ post \<and>
         (\<forall>c \<in> set pre. priority_rank (priority c) < priority_rank (priority x)) \<and>
         (\<forall>c \<in> set post. priority_rank (priority c) \<le> priority_rank (priority x)))) \<and>
   (dequeue q = (None, q) \<longleftrightarrow> m_commands q = []) \<and>
   (\<forall>c q'. enqueue c q = (True, q') \<longrightarrow> m_commands q' = m_commands q @ [c]) \<and>
   (\<forall>c q'. enqueue c q = (False, q') \<longrightarrow>
      m_commands q' = m_commands q \<and> length (m_commands q) \<ge> m_max_size q)"
proof -
  have 1: "fst (dequeueBatch n q) = take n (priority_then_fifo (m_commands q))"
    using dequeueBatch_order [of n q] by simp
  have 2: "\<forall>x q'. dequeue q = (Some x, q') \<longrightarrow>
      (\<exists>pre post. m_commands q = pre @ x # post \<and> m_commands q' = pre @ post \<and>
         (\<forall>c \<in> set pre. priority_rank (priority c) < priority_rank (priority x)) \<and>
         (\<forall>c \<in> set post. priority_rank (priority c) \<le> priority_rank (priority x)))"
  proof (intro allI impI)
    fix x q' assume d: "dequeue q = (Some x, q')"
    then obtain rest where t: "take_head (m_commands q) = Some (x, rest)"
      and q': "m_commands q' = rest"
      by (auto simp: dequeue_def split: option.splits)
    from take_head_Some [OF t] q'
    show "\<exists>pre post. m_commands q = pre @ x # post \<and> m_commands q' = pre @ post \<and>
         (\<forall>c \<in> set pre. priority_rank (priority c) < priority_rank (priority x)) \<and>
         (\<forall>c \<in> set post. priority_rank (priority c) \<le> priority_rank (priority x))"
      by simp
  qed
  have 3: "dequeue q = (None, q) \<longleftrightarrow> m_commands q = []"
    using take_head_None [of "m_commands q"]
    by (auto simp: dequeue_def split: option.splits)
  have 4: "\<forall>c q'. enqueue c q = (True, q') \<longrightarrow> m_commands q' = m_commands q @ [c]"
    by (auto simp: enqueue_def split: if_splits)
  have 5: "\<forall>c q'. enqueue c q = (False, q') \<longrightarrow>
      m_commands q' = m_commands q \<and> length (m_commands q) \<ge> m_max_size q"
    by (auto simp: enqueue_def split: if_splits)
  from 1 2 3 4 5 show ?thesis by blast
qed

theorem queue_priority_then_fifo_witness:
  "(\<lambda>c. map sequence_id (fst (dequeueBatch 4
       ((RenderCommandQueue_new 10)
          \<lparr>m_commands := [c 1 NORMAL, c 2 NORMAL, c 3 CRITICAL, c 4 LOW, c 5 HIGH,
                          c 6 NORMAL]\<rparr>))))
     (\<lambda>n p. (RenderCommand_new RC_DRAW_POINT 1)\<lparr>priority := p, sequence_id := n\<rparr>)
   = [3, 5, 1, 2]"
  using queue_priority_then_fifo [of 4
      "(RenderCommandQueue_new 10)
          \<lparr>m_commands :=
             [(RenderCommand_new RC_DRAW_POINT 1)\<lparr>priority := NORMAL, sequence_id := 1\<rparr>,
              (RenderCommand_new RC_DRAW_POINT 1)\<lparr>priority := NORMAL, sequence_id := 2\<rparr>,
              (RenderCommand_new RC_DRAW_POINT 1)\<lparr>priority := CRITICAL, sequence_id := 3\<rparr>,
              (RenderCommand_new RC_DRAW_POINT 1)\<lparr>priority := LOW, sequence_id := 4\<rparr>,
              (RenderCommand_new RC_DRAW_POINT 1)\<lparr>priority := HIGH, sequence_id := 5\<rparr>,
              (RenderCommand_new RC_DRAW_POINT 1)\<lparr>priority := NORMAL, sequence_id := 6\<rparr>]\<rparr>"]
  by (simp add: priority_then_fifo_def RenderCommand_new_def RenderCommandQueue_new_def)

section \<open>Priority assignment\<close>

text \<open>
  C4. Priority assignment is a total function of message type and layer id: layer 0
  always gives High; on any other layer CLEAR_LAYER and CLEAR_ALL_LAYERS give High,
  DRAW_TEXT and DRAW_TEXTURED_QUADS give Normal, and every other message type gives
  Normal.
\<close>

theorem assignPriority_table:
  "(layer = 0 \<longrightarrow> assignPriority message_type layer = HIGH) \<and>
   (layer \<noteq> 0 \<and> message_type \<in> {CLEAR_LAYER, CLEAR_ALL_LAYERS}
      \<longrightarrow> assignPriority message_type layer = HIGH) \<and>
   (layer \<noteq> 0 \<and> message_type \<in> {DRAW_TEXT, DRAW_TEXTURED_QUADS}
      \<longrightarrow> assignPriority message_type layer = NORMAL) \<and>
   (layer \<noteq> 0 \<and> message_type \<notin> {CLEAR_LAYER, CLEAR_ALL_LAYERS}
      \<longrightarrow> assignPriority message_type layer = NORMAL)"
  by (auto simp: assignPriority_def MessageType_defs)

theorem assignPriority_table_witness:
  "assignPriority DRAW_POINT 0 = HIGH \<and>
   assignPriority CLEAR_LAYER 3 = HIGH \<and>
   assignPriority CLEAR_ALL_LAYERS 3 = HIGH \<and>
   assignPriority DRAW_TEXT 3 = NORMAL \<and>
   assignPriority DRAW_TEXTURED_QUADS 3 = NORMAL \<and>
   assignPriority PING 3 = NORMAL"
  using assignPriority_table [of 0 DRAW_POINT]
    assignPriority_table [of 3 CLEAR_LAYER]
    assignPriority_table [of 3 CLEAR_ALL_LAYERS]
    assignPriority_table [of 3 DRAW_TEXT]
    assignPriority_table [of 3 DRAW_TEXTURED_QUADS]
    assignPriority_table [of 3 PING]
  by (simp add: MessageType_defs)

section \<open>Disconnect\<close>

text \<open>
  C10. Client::disconnect is idempotent: on a client that is already DISCONNECTED a
  further call changes nothing (state, socket handle, stored reason, and no further
  close or log line), so disconnect followed by disconnect equals a single disconnect.
\<close>

theorem disconnect_idempotent:
  "(m_state c = DISCONNECTED \<longrightarrow> disconnect reason c = c) \<and>
   disconnect reason' (disconnect reason c) = disconnect reason c"
  by (simp add: disconnect_def setState_def Let_def)

theorem disconnect_idempotent_witness:
  "m_state (disconnect ''Client request'' (Client_new 7)) = DISCONNECTED \<and>
   disconnect ''again'' (disconnect ''Client request'' (Client_new 7))
     = disconnect ''Client request'' (Client_new 7)"
  using disconnect_idempotent
    [of "disconnect ''Client request'' (Client_new 7)" "''again''"]
  by (simp add: disconnect_def setState_def Client_new_def)

end
